theory Spec2Isabelle
  imports Complex_Main
begin

chapter \<open>superblockify: metric object, partitioning checks and bearing partitioner\<close>

text \<open>
  A shallow embedding of the parts of superblockify that decide the properties below:
  \<^item> \<^verbatim>\<open>metrics/metric.py\<close> and the older module \<^verbatim>\<open>metrics.py\<close>: the \<^verbatim>\<open>Metric\<close> object;
  \<^item> \<^verbatim>\<open>partitioning/checks.py\<close>: \<^verbatim>\<open>is_valid_partitioning\<close> and its helpers;
  \<^item> \<^verbatim>\<open>partitioning/utils.py\<close>: \<^verbatim>\<open>save_to_gpkg\<close>;
  \<^item> \<^verbatim>\<open>partitioning/bearing.py\<close>: \<^verbatim>\<open>BearingPartitioner\<close> with \<^verbatim>\<open>merge_sets\<close>,
    the binning, the peak finding and \<^verbatim>\<open>run\<close>.

  Python exceptions are values of the type \<open>error\<close>; a function that may raise returns
  \<open>error + 'a\<close>, with \<open>Inl\<close> the exception. Logging and plotting calls have no effect
  on any value below and are left out.
\<close>

section \<open>Exceptions and Python values\<close>

datatype error =
    ValueError
  | TypeError
  | IndexError
  | KeyError
  | AttributeError
  | ArithmeticError
  | AssertionError
  | FileNotFoundError
  | NetworkXPointlessConcept

text \<open>
  A Python float is a finite number, an infinity or NaN. Finite floats are modelled as
  reals: rounding and overflow are not part of the model, the special values and the way
  comparisons treat them are.
\<close>

datatype pyfloat = Finite real | PosInf | NegInf | NaN

text \<open>
  The values an attribute of a \<^verbatim>\<open>Metric\<close> object or an argument may hold. A dict keeps
  its insertion order and is a list of key-value pairs; numpy arrays are nested lists.
  \<^verbatim>\<open>bool\<close> is a subclass of \<^verbatim>\<open>int\<close> in Python, so \<open>PBool\<close> counts as an int instance
  with value 0 or 1.
\<close>

datatype pyval =
    PNone
  | PBool bool
  | PInt int
  | PFloat pyfloat
  | PStr string
  | PList "pyval list"
  | PDict "(string \<times> pyval) list"

text \<open>The comparison \<^verbatim>\<open><\<close> on floats: false as soon as one side is NaN.\<close>

fun float_lt :: "pyfloat \<Rightarrow> pyfloat \<Rightarrow> bool" where
  "float_lt NaN _ = False"
| "float_lt _ NaN = False"
| "float_lt (Finite a) (Finite b) = (a < b)"
| "float_lt (Finite a) PosInf = True"
| "float_lt NegInf (Finite b) = True"
| "float_lt NegInf PosInf = True"
| "float_lt _ _ = False"

text \<open>\<^verbatim>\<open>isinstance(v, (float, int))\<close>.\<close>

fun isinstance_float_int :: "pyval \<Rightarrow> bool" where
  "isinstance_float_int (PFloat _) = True"
| "isinstance_float_int (PInt _) = True"
| "isinstance_float_int (PBool _) = True"
| "isinstance_float_int _ = False"

text \<open>
  The number a float or int instance compares as (Python compares an int with a float
  by value); only used on values that passed \<open>isinstance_float_int\<close>.
\<close>

fun py_number :: "pyval \<Rightarrow> pyfloat" where
  "py_number (PFloat x) = x"
| "py_number (PInt n) = Finite (of_int n)"
| "py_number (PBool b) = Finite (if b then 1 else 0)"
| "py_number _ = NaN"

text \<open>True division of a number by a finite non-zero constant.\<close>

fun float_div :: "pyfloat \<Rightarrow> real \<Rightarrow> pyfloat" where
  "float_div (Finite x) d = Finite (x / d)"
| "float_div x d = x"

section \<open>The \<^verbatim>\<open>Metric\<close> object (\<^verbatim>\<open>metrics/metric.py\<close>)\<close>

text \<open>
  A \<^verbatim>\<open>Metric\<close> object is its attribute dictionary \<^verbatim>\<open>self.__dict__\<close>, in the order in
  which \<^verbatim>\<open>__init__\<close> creates the attributes.
\<close>

type_synonym metric = "(string \<times> pyval) list"


text \<open>Attribute assignment: an existing key keeps its place, a new key goes last.\<close>

fun setattr :: "metric \<Rightarrow> string \<Rightarrow> pyval \<Rightarrow> metric" where
  "setattr [] k v = [(k, v)]"
| "setattr ((k', v') # m) k v = (if k' = k then (k, v) # m else (k', v') # setattr m k v)"

subsection \<open>\<^verbatim>\<open>Metric.calculate_high_bc_clustering\<close>\<close>

text \<open>
  \<^verbatim>\<open>
  if not isinstance(percentile, (float, int)):
      raise ValueError(...)
  if not 0.0 < percentile < 100.0:
      raise ValueError(...)
  self.high_bc_clustering, self.high_bc_anisotropy = calculate_high_bc_clustering(
      node_x=[...], node_y=[...], node_betweenness=[...], percentile=percentile / 100)
  \<close>
  The function \<^verbatim>\<open>measures.calculate_high_bc_clustering\<close> is not part of the sources at
  hand. It is the parameter \<open>measure_hbc\<close>, which stands for the whole right-hand side
  of the assignment (reading the node attributes of the graph along \<^verbatim>\<open>self.node_list\<close>
  and calling the measure), may raise, and otherwise returns the pair that is assigned.
\<close>

definition Metric_calculate_high_bc_clustering ::
  "(metric \<Rightarrow> 'g \<Rightarrow> pyfloat \<Rightarrow> error + pyval \<times> pyval) \<Rightarrow> metric \<Rightarrow> 'g \<Rightarrow> pyval \<Rightarrow> error + metric" where
  "Metric_calculate_high_bc_clustering measure_hbc self graph percentile =
     (if \<not> isinstance_float_int percentile then Inl ValueError
      else if \<not> (float_lt (Finite 0) (py_number percentile)
                 \<and> float_lt (py_number percentile) (Finite 100))
      then Inl ValueError
      else (case measure_hbc self graph (float_div (py_number percentile) 100) of
              Inl e \<Rightarrow> Inl e
            | Inr (clustering, anisotropy) \<Rightarrow>
                Inr (setattr (setattr self ''high_bc_clustering'' clustering)
                       ''high_bc_anisotropy'' anisotropy)))"

text \<open>
  What the claim calls ``an int or float strictly between 0.0 and 100.0'': the value is
  an int or float instance that denotes a number \<open>x\<close> with \<open>0 < x < 100\<close>. NaN and the
  infinities denote no such number.
\<close>

fun number_value :: "pyval \<Rightarrow> real option" where
  "number_value (PInt n) = Some (of_int n)"
| "number_value (PBool b) = Some (if b then 1 else 0)"
| "number_value (PFloat (Finite x)) = Some x"
| "number_value _ = None"

definition percentile_in_range :: "pyval \<Rightarrow> bool" where
  "percentile_in_range p = (case number_value p of None \<Rightarrow> False | Some x \<Rightarrow> 0 < x \<and> x < 100)"

lemma percentile_validation_iff:
  "(isinstance_float_int p \<and> float_lt (Finite 0) (py_number p) \<and> float_lt (py_number p) (Finite 100))
    = percentile_in_range p"
proof (cases p)
  case (PFloat x)
  then show ?thesis by (cases x) (simp_all add: percentile_in_range_def)
qed (simp_all add: percentile_in_range_def)

text \<open>
  Claim C9. \<^verbatim>\<open>Metric.calculate_high_bc_clustering\<close> raises \<^verbatim>\<open>ValueError\<close> whenever the
  percentile is not an int or float strictly between 0 and 100; when it is, the two
  validation steps raise nothing and the result is whatever the computation after them
  gives. So, unless that later computation raises a \<^verbatim>\<open>ValueError\<close> of its own, the
  method raises \<^verbatim>\<open>ValueError\<close> if and only if the percentile is out of range.
\<close>

theorem calculate_high_bc_clustering_validation:
  "(\<not> percentile_in_range p \<longrightarrow>
      Metric_calculate_high_bc_clustering measure_hbc self g p = Inl ValueError)
   \<and> (percentile_in_range p \<longrightarrow>
      Metric_calculate_high_bc_clustering measure_hbc self g p
        = (case measure_hbc self g (float_div (py_number p) 100) of
             Inl e \<Rightarrow> Inl e
           | Inr (clustering, anisotropy) \<Rightarrow>
               Inr (setattr (setattr self ''high_bc_clustering'' clustering)
                      ''high_bc_anisotropy'' anisotropy)))
   \<and> ((\<forall>q. measure_hbc self g q \<noteq> Inl ValueError) \<longrightarrow>
        (Metric_calculate_high_bc_clustering measure_hbc self g p = Inl ValueError)
          = (\<not> percentile_in_range p))"
proof -
  have bad: "Metric_calculate_high_bc_clustering measure_hbc self g p = Inl ValueError"
    if "\<not> percentile_in_range p"
    using that percentile_validation_iff[of p]
    by (auto simp: Metric_calculate_high_bc_clustering_def)
  have good: "Metric_calculate_high_bc_clustering measure_hbc self g p
        = (case measure_hbc self g (float_div (py_number p) 100) of
             Inl e \<Rightarrow> Inl e
           | Inr (clustering, anisotropy) \<Rightarrow>
               Inr (setattr (setattr self ''high_bc_clustering'' clustering)
                      ''high_bc_anisotropy'' anisotropy))"
    if "percentile_in_range p"
    using that percentile_validation_iff[of p]
    by (auto simp: Metric_calculate_high_bc_clustering_def)
  have iff: "(Metric_calculate_high_bc_clustering measure_hbc self g p = Inl ValueError)
          = (\<not> percentile_in_range p)"
    if "\<forall>q. measure_hbc self g q \<noteq> Inl ValueError"
  proof (cases "percentile_in_range p")
    case True
    with good that show ?thesis
      by (auto split: sum.splits prod.splits)
  next
    case False
    with bad show ?thesis by simp
  qed
  from bad good iff show ?thesis by blast
qed

text \<open>
  The theorem at work: the configured percentile 90 passes and the two attributes are
  set; NaN, 100 and the string \<^verbatim>\<open>"90"\<close> raise.
\<close>

definition example_measure :: "metric \<Rightarrow> unit \<Rightarrow> pyfloat \<Rightarrow> error + pyval \<times> pyval" where
  "example_measure self g q = Inr (PFloat q, PFloat (Finite 1))"

theorem calculate_high_bc_clustering_validation_witness:
  "percentile_in_range (PInt 90)
   \<and> Metric_calculate_high_bc_clustering example_measure [(''unit'', PStr ''time'')] () (PInt 90)
       = Inr [(''unit'', PStr ''time''),
              (''high_bc_clustering'', PFloat (Finite (9 / 10))),
              (''high_bc_anisotropy'', PFloat (Finite 1))]
   \<and> \<not> percentile_in_range (PFloat NaN)
   \<and> Metric_calculate_high_bc_clustering example_measure [(''unit'', PStr ''time'')] () (PFloat NaN)
       = Inl ValueError
   \<and> \<not> percentile_in_range (PInt 100)
   \<and> Metric_calculate_high_bc_clustering example_measure [(''unit'', PStr ''time'')] () (PInt 100)
       = Inl ValueError
   \<and> \<not> percentile_in_range (PStr ''90'')
   \<and> Metric_calculate_high_bc_clustering example_measure [(''unit'', PStr ''time'')] () (PStr ''90'')
       = Inl ValueError"
  using calculate_high_bc_clustering_validation[of "PInt 90" example_measure "[(''unit'', PStr ''time'')]" "()"]
    calculate_high_bc_clustering_validation[of "PFloat NaN" example_measure "[(''unit'', PStr ''time'')]" "()"]
    calculate_high_bc_clustering_validation[of "PInt 100" example_measure "[(''unit'', PStr ''time'')]" "()"]
    calculate_high_bc_clustering_validation[of "PStr ''90''" example_measure "[(''unit'', PStr ''time'')]" "()"]
  by (simp add: percentile_in_range_def example_measure_def)

subsection \<open>\<^verbatim>\<open>Metric.__str__\<close> and \<^verbatim>\<open>Metric.__repr__\<close>\<close>







subsection \<open>The older module \<^verbatim>\<open>metrics.py\<close>\<close>





subsection \<open>What the string lists\<close>

















subsection \<open>\<^verbatim>\<open>Metric.__eq__\<close>, \<^verbatim>\<open>Metric.save\<close> and \<^verbatim>\<open>Metric.load\<close>\<close>

text \<open>
  Modelled from the spec: \<^verbatim>\<open>compare_dicts\<close> of \<^verbatim>\<open>superblockify/utils.py\<close> is not part of
  the sources at hand. The spec describes the equality of two metrics as ``deep
  structural equality over nested mappings, treating NaN specially if present''. So two
  dicts are equal when they have the same keys and equal values under each key, two
  lists or arrays when they are equal element by element, two numbers when they have
  the same value, with NaN equal to NaN, and any other two values when they are the same.
\<close>

fun float_equal_nan :: "pyfloat \<Rightarrow> pyfloat \<Rightarrow> bool" where
  "float_equal_nan NaN NaN = True"
| "float_equal_nan (Finite a) (Finite b) = (a = b)"
| "float_equal_nan PosInf PosInf = True"
| "float_equal_nan NegInf NegInf = True"
| "float_equal_nan _ _ = False"

fun deep_equal :: "pyval \<Rightarrow> pyval \<Rightarrow> bool"
  and deep_equal_list :: "pyval list \<Rightarrow> pyval list \<Rightarrow> bool"
  and deep_equal_items :: "(string \<times> pyval) list \<Rightarrow> (string \<times> pyval) list \<Rightarrow> bool" where
  "deep_equal (PDict a) (PDict b) = (set (map fst a) = set (map fst b) \<and> deep_equal_items a b)"
| "deep_equal (PList a) (PList b) = deep_equal_list a b"
| "deep_equal a b =
     (if isinstance_float_int a \<and> isinstance_float_int b
      then float_equal_nan (py_number a) (py_number b) else a = b)"
| "deep_equal_list [] ys = (ys = [])"
| "deep_equal_list (x # xs) ys =
     (case ys of [] \<Rightarrow> False | y # ys' \<Rightarrow> deep_equal x y \<and> deep_equal_list xs ys')"
| "deep_equal_items [] b = True"
| "deep_equal_items ((k, v) # a) b =
     ((case map_of b k of None \<Rightarrow> False | Some v' \<Rightarrow> deep_equal v v') \<and> deep_equal_items a b)"

definition compare_dicts :: "(string \<times> pyval) list \<Rightarrow> (string \<times> pyval) list \<Rightarrow> bool" where
  "compare_dicts dict1 dict2 = deep_equal (PDict dict1) (PDict dict2)"

text \<open>\<^verbatim>\<open>return compare_dicts(self.__dict__, other.__dict__)\<close>\<close>

definition Metric_eq :: "metric \<Rightarrow> metric \<Rightarrow> bool" where
  "Metric_eq self other = compare_dicts self other"

text \<open>
  \<^verbatim>\<open>pickle.dump\<close> and \<^verbatim>\<open>pickle.load\<close> belong to the standard library. The file that
  \<^verbatim>\<open>pickle.dump\<close> writes holds the pickled object, and \<^verbatim>\<open>pickle.load\<close> rebuilds an
  object with the same attribute dictionary; the bytes in between are not modelled.
\<close>

datatype blob = Pickled metric

definition pickle_dump :: "metric \<Rightarrow> blob" where
  "pickle_dump obj = Pickled obj"

fun pickle_load :: "blob \<Rightarrow> metric" where
  "pickle_load (Pickled obj) = obj"

text \<open>
  The file system maps a path to the content of the file there. Directories are not
  modelled: opening a file for writing succeeds.
\<close>

type_synonym filesystem = "string \<rightharpoonup> blob"

text \<open>\<^verbatim>\<open>os.path.join\<close> on POSIX paths.\<close>

definition path_join2 :: "string \<Rightarrow> string \<Rightarrow> string" where
  "path_join2 a b =
     (if b \<noteq> [] \<and> hd b = CHR ''/'' then b
      else if a = [] \<or> last a = CHR ''/'' then a @ b
      else a @ ''/'' @ b)"

definition os_path_join :: "string \<Rightarrow> string list \<Rightarrow> string" where
  "os_path_join a ps = foldl path_join2 a ps"

text \<open>
  \<^verbatim>\<open>
  def save(self, folder, name):
      metrics_path = join(folder, name + ".metrics")
      with open(metrics_path, "wb") as file:
          pickle.dump(self, file)
  \<close>
\<close>

definition Metric_save :: "filesystem \<Rightarrow> metric \<Rightarrow> string \<Rightarrow> string \<Rightarrow> filesystem" where
  "Metric_save fs self folder name =
     (let metrics_path = os_path_join folder [name @ ''.metrics'']
      in fs(metrics_path \<mapsto> pickle_dump self))"

text \<open>
  \<^verbatim>\<open>
  def load(cls, name):
      metrics_path = join(RESULTS_DIR, name, name + ".metrics")
      with open(metrics_path, "rb") as file:
          metrics = pickle.load(file)
      return metrics
  \<close>
  \<^verbatim>\<open>RESULTS_DIR\<close> of \<^verbatim>\<open>config.py\<close> depends on where the package is installed and is a
  parameter.
\<close>

definition Metric_load :: "string \<Rightarrow> filesystem \<Rightarrow> string \<Rightarrow> error + metric" where
  "Metric_load RESULTS_DIR fs name =
     (let metrics_path = os_path_join RESULTS_DIR [name, name @ ''.metrics'']
      in case fs metrics_path of
           None \<Rightarrow> Inl FileNotFoundError
         | Some file \<Rightarrow> Inr (pickle_load file))"

text \<open>A Python dict has no key twice.\<close>

fun well_formed :: "pyval \<Rightarrow> bool" where
  "well_formed (PDict d) = (distinct (map fst d) \<and> (\<forall>v \<in> snd ` set d. well_formed v))"
| "well_formed (PList xs) = (\<forall>v \<in> set xs. well_formed v)"
| "well_formed v = True"

lemma float_equal_nan_refl: "float_equal_nan x x"
  by (cases x) simp_all

lemma deep_equal_list_refl:
  "\<forall>v \<in> set xs. deep_equal v v \<Longrightarrow> deep_equal_list xs xs"
  by (induction xs) simp_all

lemma deep_equal_items_lookup:
  "\<forall>kv \<in> set a. map_of b (fst kv) = Some (snd kv) \<and> deep_equal (snd kv) (snd kv)
   \<Longrightarrow> deep_equal_items a b"
  by (induction a) auto

lemma deep_equal_refl: "well_formed v \<Longrightarrow> deep_equal v v"
proof (induction v)
  case (PDict d)
  have "map_of d (fst kv) = Some (snd kv) \<and> deep_equal (snd kv) (snd kv)"
    if "kv \<in> set d" for kv
  proof
    from PDict.prems that show "map_of d (fst kv) = Some (snd kv)" by simp
    have "snd kv \<in> Basic_BNFs.snds kv" by (cases kv) simp
    from PDict.IH[OF that this] PDict.prems that show "deep_equal (snd kv) (snd kv)" by force
  qed
  then show ?case by (simp add: deep_equal_items_lookup)
next
  case (PList xs)
  then show ?case by (simp add: deep_equal_list_refl)
qed (simp_all add: float_equal_nan_refl)

text \<open>
  Claim C3 (round trip). A metric saved with \<^verbatim>\<open>Metric.save\<close> into the folder that
  \<^verbatim>\<open>Metric.load\<close> reads for its name, \<^verbatim>\<open>join(RESULTS_DIR, name)\<close>, is loaded back without
  error, and the loaded object is equal to the original under \<^verbatim>\<open>Metric.__eq__\<close>, NaN
  entries included.
\<close>

theorem Metric_save_load_round_trip:
  assumes "well_formed (PDict m)"
  shows "\<exists>loaded. Metric_load RESULTS_DIR
                    (Metric_save fs m (os_path_join RESULTS_DIR [name]) name) name = Inr loaded
                  \<and> Metric_eq loaded m"
proof -
  have "os_path_join (os_path_join RESULTS_DIR [name]) [name @ ''.metrics'']
          = os_path_join RESULTS_DIR [name, name @ ''.metrics'']"
    by (simp add: os_path_join_def)
  then have "Metric_load RESULTS_DIR
               (Metric_save fs m (os_path_join RESULTS_DIR [name]) name) name = Inr m"
    by (simp add: Metric_load_def Metric_save_def pickle_dump_def)
  moreover have "Metric_eq m m"
    using assms deep_equal_refl[of "PDict m"] by (simp add: Metric_eq_def compare_dicts_def)
  ultimately show ?thesis by blast
qed

definition example_nan_metric :: metric where
  "example_nan_metric =
     [(''coverage'', PFloat NaN),
      (''directness'', PDict [(''SN'', PFloat (Finite (1 / 2)))]),
      (''distance_matrix'', PDict [(''S'', PList [PList [PFloat (Finite 0), PFloat PosInf],
                                                  PList [PFloat NaN, PFloat (Finite 0)]])]),
      (''unit'', PStr ''time'')]"

theorem Metric_save_load_round_trip_witness:
  "well_formed (PDict example_nan_metric)
   \<and> Metric_load ''results''
       (Metric_save Map.empty example_nan_metric ''results/run'' ''run'') ''run''
       = Inr example_nan_metric
   \<and> Metric_eq example_nan_metric example_nan_metric"
proof -
  have wf: "well_formed (PDict example_nan_metric)"
    by (simp add: example_nan_metric_def)
  have folder: "os_path_join ''results'' [''run''] = ''results/run''"
    by (simp add: os_path_join_def path_join2_def)
  have load: "Metric_load ''results''
       (Metric_save Map.empty example_nan_metric ''results/run'' ''run'') ''run''
       = Inr example_nan_metric"
    by (simp add: Metric_load_def Metric_save_def os_path_join_def path_join2_def pickle_dump_def)
  from Metric_save_load_round_trip[OF wf, of "''results''" Map.empty "''run''"] folder load wf
  show ?thesis by simp
qed

section \<open>Graphs and the partitioner object\<close>

text \<open>
  A street graph is a \<^verbatim>\<open>networkx.MultiDiGraph\<close>: nodes are OSM ids, an edge is a triple
  \<^verbatim>\<open>(u, v, key)\<close>. The lists keep the iteration order of \<^verbatim>\<open>graph.nodes\<close> and
  \<^verbatim>\<open>graph.edges\<close>. A subgraph view has nodes and edges of its own and shares the
  attribute dictionaries of its edges with the parent graph; the shared edge attributes
  are the field \<open>edge_attrs\<close> of the partitioner.
\<close>

type_synonym node = int
type_synonym edge = "node \<times> node \<times> nat"

record graph =
  nodes :: "node list"
  edges :: "edge list"






text \<open>
  A component or partition is a dict with the keys \<^verbatim>\<open>name\<close> and \<^verbatim>\<open>subgraph\<close>. The
  partitioner of \<^verbatim>\<open>checks.py\<close> and \<^verbatim>\<open>utils.py\<close> has the attributes \<^verbatim>\<open>name\<close>,
  \<^verbatim>\<open>results_dir\<close>, \<^verbatim>\<open>graph\<close>, \<^verbatim>\<open>sparsified\<close>, \<^verbatim>\<open>components\<close> and \<^verbatim>\<open>partitions\<close>; the
  last three may be \<^verbatim>\<open>None\<close>.
\<close>

record part =
  name :: string
  subgraph :: graph

record partitioner =
  pname :: string
  results_dir :: string
  graph :: graph
  sparsified :: "graph option"
  components :: "part list option"
  partitions :: "part list option"
  edge_attrs :: "edge \<Rightarrow> string \<rightharpoonup> string"

text \<open>The truth value of a list attribute: \<^verbatim>\<open>None\<close> and the empty list are false.\<close>

definition truthy :: "'a list option \<Rightarrow> bool" where
  "truthy x = (case x of Some (_ # _) \<Rightarrow> True | _ \<Rightarrow> False)"

text \<open>\<^verbatim>\<open>partitioning.components if partitioning.components else partitioning.partitions\<close>\<close>

definition components_or_partitions :: "partitioner \<Rightarrow> part list option" where
  "components_or_partitions p = (if truthy (components p) then components p else partitions p)"

section \<open>The validity checker (\<^verbatim>\<open>partitioning/checks.py\<close>)\<close>

text \<open>
  Modelled from the spec: \<^verbatim>\<open>BasePartitioner.get_partition_nodes\<close> is not part of the
  sources at hand (the \<^verbatim>\<open>partitioner.py\<close> there is an older one without it). The checker
  reads the keys \<^verbatim>\<open>name\<close>, \<^verbatim>\<open>subgraph\<close> and \<^verbatim>\<open>nodes\<close> of every entry it returns, and
  the spec speaks of each component's name, its subgraph and its node set. So there is
  one entry per component (or partition), in order, with the component's name and
  subgraph. Which nodes of the subgraph make up the component's node set is not fixed by
  the spec; it is the parameter \<open>node_set\<close>, and everything below holds for every choice.
\<close>

record part_nodes =
  pn_name :: string
  pn_subgraph :: graph
  pn_nodes :: "node list"

definition get_partition_nodes ::
  "(partitioner \<Rightarrow> part \<Rightarrow> node list) \<Rightarrow> partitioner \<Rightarrow> error + part_nodes list" where
  "get_partition_nodes node_set p =
     (case components_or_partitions p of
        None \<Rightarrow> Inl TypeError
      | Some parts \<Rightarrow>
          Inr (map (\<lambda>c. \<lparr>pn_name = name c, pn_subgraph = subgraph c, pn_nodes = node_set p c\<rparr>)
                 parts))"

text \<open>
  Modelled from the spec: \<^verbatim>\<open>has_pairwise_overlap\<close> of \<^verbatim>\<open>superblockify/utils.py\<close> is not part
  of the sources at hand. The spec calls its result a ``matrix of
  pairwise-intersection-nonempty checks'': entry \<open>(i, j)\<close> tells whether list \<open>i\<close> and list
  \<open>j\<close> share an element.
\<close>

definition has_pairwise_overlap :: "'a list list \<Rightarrow> bool list list" where
  "has_pairwise_overlap ls = map (\<lambda>a. map (\<lambda>b. set a \<inter> set b \<noteq> {}) ls) ls"

text \<open>\<^verbatim>\<open>numpy.fill_diagonal\<close> and \<^verbatim>\<open>ndarray.any\<close>.\<close>

definition fill_diagonal :: "'a list list \<Rightarrow> 'a \<Rightarrow> 'a list list" where
  "fill_diagonal m v = map (\<lambda>(i, row). row[i := v]) (enumerate 0 m)"

definition matrix_any :: "bool list list \<Rightarrow> bool" where
  "matrix_any m = list_ex (list_ex (\<lambda>x. x)) m"








subsection \<open>The seven checks\<close>


definition pairwise_disjoint :: "'a list list \<Rightarrow> bool" where
  "pairwise_disjoint ls =
     (\<forall>i < length ls. \<forall>j < length ls. i \<noteq> j \<longrightarrow> set (ls ! i) \<inter> set (ls ! j) = {})"







subsection \<open>The code computes the seven checks\<close>


lemma matrix_any_nth:
  "matrix_any m = (\<exists>i < length m. \<exists>j < length (m ! i). m ! i ! j)"
proof -
  have "matrix_any m = (\<exists>row \<in> set m. \<exists>x \<in> set row. x)"
    by (simp add: matrix_any_def list_ex_iff)
  also have "\<dots> = (\<exists>i < length m. \<exists>x \<in> set (m ! i). x)"
    by (metis in_set_conv_nth)
  also have "\<dots> = (\<exists>i < length m. \<exists>j < length (m ! i). m ! i ! j)"
    by (metis in_set_conv_nth)
  finally show ?thesis .
qed

lemma fill_diagonal_nth:
  "i < length m \<Longrightarrow> fill_diagonal m v ! i = (m ! i)[i := v]"
  by (simp add: fill_diagonal_def nth_enumerate_eq)

lemma length_fill_diagonal: "length (fill_diagonal m v) = length m"
  by (simp add: fill_diagonal_def)

lemma overlap_matrix_any:
  "matrix_any (fill_diagonal (has_pairwise_overlap ls) False) = (\<not> pairwise_disjoint ls)"
proof -
  have len: "length (has_pairwise_overlap ls) = length ls"
    by (simp add: has_pairwise_overlap_def)
  have row: "has_pairwise_overlap ls ! i = map (\<lambda>b. set (ls ! i) \<inter> set b \<noteq> {}) ls"
    if "i < length ls" for i
    using that by (simp add: has_pairwise_overlap_def)
  have entry: "fill_diagonal (has_pairwise_overlap ls) False ! i ! j
                 = (i \<noteq> j \<and> set (ls ! i) \<inter> set (ls ! j) \<noteq> {})"
    if "i < length ls" "j < length ls" for i j
    using that by (auto simp: fill_diagonal_nth len row nth_list_update)
  have rowlen: "length (fill_diagonal (has_pairwise_overlap ls) False ! i) = length ls"
    if "i < length ls" for i
    using that by (simp add: fill_diagonal_nth len row)
  have "matrix_any (fill_diagonal (has_pairwise_overlap ls) False)
          = (\<exists>i < length ls. \<exists>j < length ls. i \<noteq> j \<and> set (ls ! i) \<inter> set (ls ! j) \<noteq> {})"
    unfolding matrix_any_nth length_fill_diagonal len
    using entry rowlen by metis
  then show ?thesis
    unfolding pairwise_disjoint_def by blast
qed






text \<open>
  A valid partitioning of a graph with four nodes and four edges: the sparsified graph
  joins the nodes 1 and 2, component \<^verbatim>\<open>A\<close> hangs on node 1 and component \<^verbatim>\<open>B\<close> on node
  2. The node set of a component is taken to be the nodes of its subgraph that are not
  in the sparsified graph.
\<close>

definition example_graph :: graph where
  "example_graph =
     \<lparr>nodes = [1, 2, 3, 4], edges = [(1, 2, 0), (2, 1, 0), (1, 3, 0), (2, 4, 0)]\<rparr>"

definition example_sparsified :: graph where
  "example_sparsified = \<lparr>nodes = [1, 2], edges = [(1, 2, 0), (2, 1, 0)]\<rparr>"

definition example_components :: "part list" where
  "example_components =
     [\<lparr>name = ''A'', subgraph = \<lparr>nodes = [1, 3], edges = [(1, 3, 0)]\<rparr>\<rparr>,
      \<lparr>name = ''B'', subgraph = \<lparr>nodes = [2, 4], edges = [(2, 4, 0)]\<rparr>\<rparr>]"

definition example_partitioner :: partitioner where
  "example_partitioner =
     \<lparr>pname = ''test'', results_dir = ''out'', graph = example_graph,
      sparsified = Some example_sparsified,
      components = Some example_components,
      partitions = None, edge_attrs = (\<lambda>e. Map.empty)\<rparr>"

definition inner_nodes :: "partitioner \<Rightarrow> part \<Rightarrow> node list" where
  "inner_nodes p c =
     filter (\<lambda>n. n \<notin> (case sparsified p of None \<Rightarrow> {} | Some s \<Rightarrow> set (nodes s)))
       (nodes (subgraph c))"

lemmas example_defs = example_partitioner_def example_graph_def example_sparsified_def
  example_components_def inner_nodes_def





subsection \<open>An edge in two components\<close>













section \<open>\<^verbatim>\<open>save_to_gpkg\<close> (\<^verbatim>\<open>partitioning/utils.py\<close>)\<close>

text \<open>
  \<^verbatim>\<open>networkx.set_edge_attributes(G, value, name)\<close> with a string \<^verbatim>\<open>value\<close> writes the
  attribute on every edge of \<^verbatim>\<open>G\<close>. \<^verbatim>\<open>G\<close> is a subgraph view here, so the write lands in
  the attribute dictionaries shared with the partitioner's graph.
\<close>

definition set_edge_attributes ::
  "(edge \<Rightarrow> string \<rightharpoonup> string) \<Rightarrow> graph \<Rightarrow> string \<Rightarrow> string \<Rightarrow> (edge \<Rightarrow> string \<rightharpoonup> string)" where
  "set_edge_attributes attrs g val attr_name =
     (\<lambda>e. if e \<in> set (edges g) then (attrs e)(attr_name \<mapsto> val) else attrs e)"

text \<open>
  \<^verbatim>\<open>
  for _, part in enumerate(parts):
      set_edge_attributes(part["subgraph"], part["name"], "classification")
  \<close>
\<close>

fun bake :: "part list \<Rightarrow> (edge \<Rightarrow> string \<rightharpoonup> string) \<Rightarrow> (edge \<Rightarrow> string \<rightharpoonup> string)" where
  "bake [] attrs = attrs"
| "bake (part # rest) attrs =
     bake rest (set_edge_attributes attrs (subgraph part) (name part) ''classification'')"

text \<open>
  The exported file: its path, the layer name and one row per edge of
  \<^verbatim>\<open>partitioner.graph\<close> with the attributes of that edge. The geometry column and the
  conversion of list-valued columns to strings are not modelled; an attribute that an
  edge does not have is missing in its row (pandas writes it as \<^verbatim>\<open>nan\<close>).
\<close>

record gpkg_file =
  file_path :: string
  layer :: string
  rows :: "(edge \<times> (string \<rightharpoonup> string)) list"

text \<open>
  \<^verbatim>\<open>save_to_gpkg\<close> returns the partitioner, whose graph now carries the baked attributes,
  and the file it wrote. Every graph of the model is a \<^verbatim>\<open>MultiDiGraph\<close>, so the test
  \<^verbatim>\<open>isinstance(partitioner.sparsified, type(partitioner.graph))\<close> holds for every
  sparsified graph that is not \<^verbatim>\<open>None\<close>, and every entry of \<open>parts\<close> is a dict with the
  keys \<^verbatim>\<open>subgraph\<close> and \<^verbatim>\<open>name\<close>.
\<close>

definition save_to_gpkg :: "partitioner \<Rightarrow> string option \<Rightarrow> error + partitioner \<times> gpkg_file" where
  "save_to_gpkg partitioner save_path =
     (if sparsified partitioner = None then Inl ValueError
      else if \<not> truthy (components partitioner) \<and> \<not> truthy (partitions partitioner)
      then Inl ValueError
      else
        let filepath =
              (case save_path of
                 Some given \<Rightarrow> given
               | None \<Rightarrow> os_path_join (results_dir partitioner) [pname partitioner @ ''.gpkg''])
        in (case (if truthy (components partitioner) then components partitioner
                  else if truthy (partitions partitioner) then partitions partitioner
                  else None) of
              None \<Rightarrow> Inl ValueError
            | Some parts \<Rightarrow>
                let attrs = bake parts (edge_attrs partitioner)
                in Inr (partitioner\<lparr>edge_attrs := attrs\<rparr>,
                        \<lparr>file_path = filepath, layer = ''edges'',
                         rows = map (\<lambda>e. (e, attrs e)) (edges (graph partitioner))\<rparr>)))"

text \<open>The column \<^verbatim>\<open>classification\<close> of the exported layer.\<close>

definition classification_column :: "gpkg_file \<Rightarrow> (edge \<times> string option) list" where
  "classification_column f = map (\<lambda>r. (fst r, snd r ''classification'')) (rows f)"

text \<open>
  Claim C8 (classification of every exported edge). The docstring of \<^verbatim>\<open>save_to_gpkg\<close>
  promises the value \<^verbatim>\<open>SPARSE\<close> for the edges of the sparsified graph, but the function
  only writes the names of the components. On the example partitioner the edges
  \<open>(1, 3, 0)\<close> and \<open>(2, 4, 0)\<close> of the components \<^verbatim>\<open>A\<close> and \<^verbatim>\<open>B\<close> are classified, the two
  edges of the sparsified graph are exported without a classification.
\<close>

theorem save_to_gpkg_sparse_unclassified:
  "map_sum id (\<lambda>r. (file_path (snd r), classification_column (snd r)))
     (save_to_gpkg example_partitioner None)
   = Inr (''out/test.gpkg'',
          [((1, 2, 0), None), ((2, 1, 0), None), ((1, 3, 0), Some ''A''), ((2, 4, 0), Some ''B'')])"
  by (simp add: save_to_gpkg_def example_defs truthy_def os_path_join_def path_join2_def
      set_edge_attributes_def classification_column_def)

section \<open>The checks of \<^verbatim>\<open>calculate_partitioning_distance_matrix\<close>\<close>

text \<open>
  Modelled from the spec: \<^verbatim>\<open>calculate_partitioning_distance_matrix\<close> of
  \<^verbatim>\<open>metrics/distances.py\<close> is not part of the sources at hand; only its tests are. The
  spec says of the partition-restricted shortest paths that the computation ``must detect
  and fail with an error if component names collide (ambiguous routing) or if components
  pairwise overlap''. The tests call it without \<^verbatim>\<open>check_overlap\<close> on duplicated
  components and with \<^verbatim>\<open>check_overlap=True\<close> on a renamed copy of a component, and
  expect \<^verbatim>\<open>ValueError\<close> both times. The components are those that
  \<^verbatim>\<open>get_partition_nodes\<close> lists. The shortest-path computation itself is the parameter
  \<open>restricted_paths\<close>; it runs only after both checks and may raise on its own.
\<close>

definition calculate_partitioning_distance_matrix ::
  "(partitioner \<Rightarrow> part \<Rightarrow> node list) \<Rightarrow> (partitioner \<Rightarrow> error + 'm) \<Rightarrow> partitioner \<Rightarrow> bool
     \<Rightarrow> error + 'm" where
  "calculate_partitioning_distance_matrix node_set restricted_paths partitioner check_overlap =
     (case get_partition_nodes node_set partitioner of
        Inl e \<Rightarrow> Inl e
      | Inr entries \<Rightarrow>
          if \<not> distinct (map pn_name entries) then Inl ValueError
          else if check_overlap
                  \<and> matrix_any (fill_diagonal (has_pairwise_overlap (map pn_nodes entries)) False)
          then Inl ValueError
          else restricted_paths partitioner)"

text \<open>
  Claim C2. On a partitioner with a list of components or partitions,
  \<^verbatim>\<open>calculate_partitioning_distance_matrix\<close> raises \<^verbatim>\<open>ValueError\<close> when two of them carry
  the same name, and, when \<^verbatim>\<open>check_overlap\<close> is set, when the node sets of two of them
  overlap. Neither check asks \<^verbatim>\<open>is_valid_partitioning\<close>.
\<close>

theorem calculate_partitioning_distance_matrix_raises:
  assumes "components_or_partitions p = Some parts"
  shows "(\<not> distinct (map name parts) \<longrightarrow>
            calculate_partitioning_distance_matrix node_set restricted_paths p check_overlap
              = Inl ValueError)
       \<and> (check_overlap \<and> \<not> pairwise_disjoint (map (node_set p) parts) \<longrightarrow>
            calculate_partitioning_distance_matrix node_set restricted_paths p check_overlap
              = Inl ValueError)"
  using assms
  by (auto simp: calculate_partitioning_distance_matrix_def get_partition_nodes_def
      overlap_matrix_any comp_def)

text \<open>
  The two tests: the components doubled, and a copy of the last component under the
  name \<^verbatim>\<open>B_dup\<close>. The shortest-path computation of the example returns nothing of
  interest.
\<close>

definition doubled_components :: partitioner where
  "doubled_components =
     example_partitioner\<lparr>components := Some (example_components @ example_components)\<rparr>"

definition renamed_copy :: partitioner where
  "renamed_copy =
     example_partitioner\<lparr>components :=
       Some (example_components @ [(last example_components)\<lparr>name := ''B_dup''\<rparr>])\<rparr>"

definition example_paths :: "partitioner \<Rightarrow> error + unit" where
  "example_paths p = Inr ()"

theorem calculate_partitioning_distance_matrix_raises_witness:
  "components_or_partitions doubled_components = Some (example_components @ example_components)
   \<and> \<not> distinct (map name (example_components @ example_components))
   \<and> calculate_partitioning_distance_matrix inner_nodes example_paths doubled_components False
       = Inl ValueError
   \<and> \<not> pairwise_disjoint
         (map (inner_nodes renamed_copy)
            (example_components @ [(last example_components)\<lparr>name := ''B_dup''\<rparr>]))
   \<and> calculate_partitioning_distance_matrix inner_nodes example_paths renamed_copy True
       = Inl ValueError
   \<and> calculate_partitioning_distance_matrix inner_nodes example_paths example_partitioner True
       = Inr ()"
proof -
  have parts1: "components_or_partitions doubled_components
                  = Some (example_components @ example_components)"
    by (simp add: doubled_components_def components_or_partitions_def truthy_def
        example_components_def example_partitioner_def)
  have names: "\<not> distinct (map name (example_components @ example_components))"
    by (simp add: example_components_def)
  have parts2: "components_or_partitions renamed_copy
                  = Some (example_components @ [(last example_components)\<lparr>name := ''B_dup''\<rparr>])"
    by (simp add: renamed_copy_def components_or_partitions_def truthy_def
        example_components_def example_partitioner_def)
  let ?ls = "map (inner_nodes renamed_copy)
            (example_components @ [(last example_components)\<lparr>name := ''B_dup''\<rparr>])"
  have len: "length ?ls = 3" by (simp add: example_components_def)
  have meet: "set (?ls ! 1) \<inter> set (?ls ! 2) \<noteq> {}"
    by (simp add: renamed_copy_def example_defs)
  have overlap: "\<not> pairwise_disjoint ?ls"
  proof
    assume "pairwise_disjoint ?ls"
    then have "set (?ls ! 1) \<inter> set (?ls ! 2) = {}"
      unfolding pairwise_disjoint_def len by simp
    with meet show False by simp
  qed
  have ok: "calculate_partitioning_distance_matrix inner_nodes example_paths example_partitioner True
       = Inr ()"
    by (auto simp: calculate_partitioning_distance_matrix_def get_partition_nodes_def
        components_or_partitions_def truthy_def has_pairwise_overlap_def fill_diagonal_def
        matrix_any_def example_defs example_paths_def)
  from calculate_partitioning_distance_matrix_raises[OF parts1, of inner_nodes example_paths False]
    calculate_partitioning_distance_matrix_raises[OF parts2, of inner_nodes example_paths True]
    parts1 names overlap ok
  show ?thesis by simp
qed

section \<open>The bearing partitioner (\<^verbatim>\<open>partitioning/bearing.py\<close>)\<close>

subsection \<open>\<^verbatim>\<open>BearingPartitioner.merge_sets\<close>\<close>

text \<open>
  \<^verbatim>\<open>
  for i, group in enumerate(sets):
      for j, group2 in enumerate(sets):
          if i != j and group & group2:
              sets[i] = group | group2
              sets.pop(j)
  return sets
  \<close>
  Both loops iterate over the list that the body mutates. A Python list iterator keeps
  an index and stops as soon as the index reaches the current length of the list; the
  loop variable \<^verbatim>\<open>group\<close> is bound once per outer iteration and is not refreshed when
  \<^verbatim>\<open>sets[i]\<close> is overwritten. The model keeps exactly this: the inner loop carries the
  index \<open>j\<close>, the fixed \<open>i\<close> and \<open>grp\<close>, and the current list. The assignment
  \<^verbatim>\<open>sets[i] = ...\<close> raises \<^verbatim>\<open>IndexError\<close> when earlier pops have made the list
  shorter than \<open>i + 1\<close>.
\<close>

definition pop_at :: "nat \<Rightarrow> 'a list \<Rightarrow> 'a list" where
  "pop_at j xs = take j xs @ drop (Suc j) xs"

function merge_inner :: "nat \<Rightarrow> 'a set \<Rightarrow> nat \<Rightarrow> 'a set list \<Rightarrow> error + 'a set list" where
  "merge_inner i grp j sets =
     (if j < length sets then
        (let grp2 = sets ! j in
         if i \<noteq> j \<and> grp \<inter> grp2 \<noteq> {} then
           (if i < length sets
            then merge_inner i grp (j + 1) (pop_at j (sets[i := grp \<union> grp2]))
            else Inl IndexError)
         else merge_inner i grp (j + 1) sets)
      else Inr sets)"
  by pat_completeness auto
termination
  by (relation "measure (\<lambda>(i, g, j, s). length s - j)") (auto simp: pop_at_def)

declare merge_inner.simps [simp del]

lemma merge_inner_length:
  "merge_inner i g j sets = Inr sets' \<Longrightarrow> length sets' \<le> length sets"
proof (induction i g j sets rule: merge_inner.induct)
  case (1 i g j sets)
  then show ?case
    by (subst (asm) (3) merge_inner.simps) (auto simp: pop_at_def Let_def split: if_splits)
qed

function merge_outer :: "nat \<Rightarrow> 'a set list \<Rightarrow> error + 'a set list" where
  "merge_outer i sets =
     (if i < length sets then
        (case merge_inner i (sets ! i) 0 sets of
           Inl e \<Rightarrow> Inl e
         | Inr sets' \<Rightarrow> merge_outer (i + 1) sets')
      else Inr sets)"
  by pat_completeness auto
termination
proof (relation "measure (\<lambda>(i, s). length s - i)")
  show "wf (measure (\<lambda>(i, s). length s - i))" by simp
next
  fix i :: nat and sets sets' :: "'a set list"
  assume "i < length sets" "merge_inner i (sets ! i) 0 sets = Inr sets'"
  then show "((i + 1, sets'), (i, sets)) \<in> measure (\<lambda>(i, s). length s - i)"
    using merge_inner_length[of i "sets ! i" 0 sets sets'] by simp
qed

declare merge_outer.simps [simp del]

definition merge_sets :: "'a set list \<Rightarrow> error + 'a set list" where
  "merge_sets sets = merge_outer 0 sets"

text \<open>The two examples of the docstring.\<close>

lemma merge_sets_docstring_1:
  "merge_sets [{1::nat, 2}, {2, 3}, {4, 5}] = Inr [{1, 2, 3}, {4, 5}]"
  by (simp add: merge_sets_def merge_outer.simps merge_inner.simps pop_at_def insert_commute)

lemma merge_sets_docstring_2:
  "merge_sets [{''a'', ''b''}, {''m'', ''3.4''}, {''b'', ''c''}]
     = Inr [{''a'', ''b'', ''c''}, {''m'', ''3.4''}]"
  by (simp add: merge_sets_def merge_outer.simps merge_inner.simps pop_at_def insert_commute)

text \<open>
  A stale index: after \<^verbatim>\<open>sets.pop(0)\<close> in the third outer iteration the list has two
  elements, and the next match of the same inner loop assigns to \<^verbatim>\<open>sets[2]\<close>.
\<close>

lemma merge_sets_raises_IndexError:
  "merge_sets [{1::nat, 2}, {2, 3}, {4}, {3, 5}] = Inl IndexError"
  by (simp add: merge_sets_def merge_outer.simps merge_inner.simps pop_at_def)

text \<open>
  Claim C6 (idempotence of \<^verbatim>\<open>merge_sets\<close>). The claim is that merging the result of
  \<^verbatim>\<open>merge_sets\<close> once more gives the same groups. On the four sets below the first
  application skips \<open>{3, 5}\<close> twice (once in the inner loop after a pop, once because
  the outer index equals the inner one), so it returns two sets that still share the
  element 3; the second application merges them. The groups after one and after two
  applications differ.
\<close>

theorem merge_sets_twice_differs:
  "merge_sets [{1::nat, 2}, {2, 3}, {1, 4}, {3, 5}] = Inr [{1, 2, 3, 4}, {3, 5}]
   \<and> merge_sets [{1::nat, 2, 3, 4}, {3, 5}] = Inr [{1, 2, 3, 4, 5}]
   \<and> set [{1::nat, 2, 3, 4}, {3, 5}] \<noteq> set [{1, 2, 3, 4, 5}]"
proof -
  have first: "merge_sets [{1::nat, 2}, {2, 3}, {1, 4}, {3, 5}] = Inr [{1, 2, 3, 4}, {3, 5}]"
    by (simp add: merge_sets_def merge_outer.simps merge_inner.simps pop_at_def insert_commute)
  have second: "merge_sets [{1::nat, 2, 3, 4}, {3, 5}] = Inr [{1, 2, 3, 4, 5}]"
    by (simp add: merge_sets_def merge_outer.simps merge_inner.simps pop_at_def insert_commute)
  have "{3::nat, 5} \<noteq> {1, 2, 3, 4, 5}" by auto
  then have differ: "set [{1::nat, 2, 3, 4}, {3, 5}] \<noteq> set [{1, 2, 3, 4, 5}]" by auto
  from first second differ show ?thesis by blast
qed

subsection \<open>Float arithmetic, \<^verbatim>\<open>numpy.mean\<close> and \<^verbatim>\<open>numpy.std\<close>\<close>

text \<open>
  The bin frequencies are floats; they are all NaN when no edge has a bearing (the
  division \<open>0 / 0\<close>). Arithmetic and comparisons follow IEEE 754 on the special values
  and are exact on finite values.
\<close>

fun float_le :: "pyfloat \<Rightarrow> pyfloat \<Rightarrow> bool" where
  "float_le NaN _ = False"
| "float_le _ NaN = False"
| "float_le (Finite a) (Finite b) = (a \<le> b)"
| "float_le NegInf _ = True"
| "float_le _ PosInf = True"
| "float_le _ _ = False"

fun float_eq :: "pyfloat \<Rightarrow> pyfloat \<Rightarrow> bool" where
  "float_eq NaN _ = False"
| "float_eq _ NaN = False"
| "float_eq a b = (a = b)"

fun float_neg :: "pyfloat \<Rightarrow> pyfloat" where
  "float_neg (Finite a) = Finite (- a)"
| "float_neg PosInf = NegInf"
| "float_neg NegInf = PosInf"
| "float_neg NaN = NaN"

fun float_add :: "pyfloat \<Rightarrow> pyfloat \<Rightarrow> pyfloat" where
  "float_add NaN _ = NaN"
| "float_add _ NaN = NaN"
| "float_add (Finite a) (Finite b) = Finite (a + b)"
| "float_add PosInf NegInf = NaN"
| "float_add NegInf PosInf = NaN"
| "float_add PosInf _ = PosInf"
| "float_add _ PosInf = PosInf"
| "float_add NegInf _ = NegInf"
| "float_add _ NegInf = NegInf"

definition float_sub :: "pyfloat \<Rightarrow> pyfloat \<Rightarrow> pyfloat" where
  "float_sub a b = float_add a (float_neg b)"

fun float_square :: "pyfloat \<Rightarrow> pyfloat" where
  "float_square (Finite a) = Finite (a * a)"
| "float_square NaN = NaN"
| "float_square _ = PosInf"

fun float_sqrt :: "pyfloat \<Rightarrow> pyfloat" where
  "float_sqrt (Finite a) = (if a < 0 then NaN else Finite (sqrt a))"
| "float_sqrt PosInf = PosInf"
| "float_sqrt _ = NaN"

definition float_max :: "pyfloat \<Rightarrow> pyfloat \<Rightarrow> pyfloat" where
  "float_max a b = (if float_lt a b then b else a)"

definition np_sum :: "pyfloat list \<Rightarrow> pyfloat" where
  "np_sum xs = foldl float_add (Finite 0) xs"

definition np_mean :: "pyfloat list \<Rightarrow> pyfloat" where
  "np_mean xs = (if xs = [] then NaN else float_div (np_sum xs) (real (length xs)))"

text \<open>\<^verbatim>\<open>numpy.std\<close>: the square root of the mean squared deviation from the mean.\<close>

definition np_std :: "pyfloat list \<Rightarrow> pyfloat" where
  "np_std xs = float_sqrt (np_mean (map (\<lambda>x. float_square (float_sub x (np_mean xs))) xs))"

subsection \<open>\<^verbatim>\<open>scipy.signal.find_peaks\<close>\<close>

text \<open>
  \<^verbatim>\<open>find_peaks(x, height, prominence, distance)\<close> of SciPy, for the three conditions that
  \<^verbatim>\<open>__find_peaks\<close> passes. It finds the local maxima, then keeps the peaks that are high
  enough, then thins them out by distance, then keeps the peaks that are prominent
  enough.

  \<^verbatim>\<open>_local_maxima_1d\<close>: a local maximum is a sample, or a plateau of equal samples, with a
  smaller sample directly on both sides; a plateau counts as one peak at its middle.
  \<^verbatim>\<open>
  i = 1
  i_max = x.shape[0] - 1
  while i < i_max:
      if x[i - 1] < x[i]:
          i_ahead = i + 1
          while i_ahead < i_max and x[i_ahead] == x[i]:
              i_ahead += 1
          if x[i_ahead] < x[i]:
              left_edges[m] = i
              right_edges[m] = i_ahead - 1
              midpoints[m] = (left_edges[m] + right_edges[m]) // 2
              m += 1
              i = i_ahead
      i += 1
  \<close>
\<close>

function lm_ahead :: "pyfloat list \<Rightarrow> nat \<Rightarrow> nat \<Rightarrow> nat" where
  "lm_ahead x i i_ahead =
     (if i_ahead < length x - 1 \<and> float_eq (x ! i_ahead) (x ! i)
      then lm_ahead x i (i_ahead + 1) else i_ahead)"
  by pat_completeness auto
termination
  by (relation "measure (\<lambda>(x, i, i_ahead). length x - i_ahead)") auto

declare lm_ahead.simps [simp del]

lemma lm_ahead_ge: "i_ahead \<le> lm_ahead x i i_ahead"
proof (induction x i i_ahead rule: lm_ahead.induct)
  case (1 x i i_ahead)
  then show ?case by (subst lm_ahead.simps) auto
qed

lemma lm_ahead_le: "i_ahead \<le> length x - 1 \<Longrightarrow> lm_ahead x i i_ahead \<le> length x - 1"
proof (induction x i i_ahead rule: lm_ahead.induct)
  case (1 x i i_ahead)
  then show ?case by (subst lm_ahead.simps) auto
qed

function local_maxima_loop :: "pyfloat list \<Rightarrow> nat \<Rightarrow> nat list \<Rightarrow> nat list" where
  "local_maxima_loop x i midpoints =
     (if i < length x - 1 then
        (if float_lt (x ! (i - 1)) (x ! i) then
           (let i_ahead = lm_ahead x i (i + 1) in
            if float_lt (x ! i_ahead) (x ! i)
            then local_maxima_loop x (i_ahead + 1) (midpoints @ [(i + (i_ahead - 1)) div 2])
            else local_maxima_loop x (i + 1) midpoints)
         else local_maxima_loop x (i + 1) midpoints)
      else midpoints)"
  by pat_completeness auto
termination
proof (relation "measure (\<lambda>(x, i, m). length x - i)")
  show "wf (measure (\<lambda>(x, i, m). length x - i))" by simp
next
  fix x :: "pyfloat list" and i :: nat and midpoints :: "nat list" and xa :: nat
  assume "i < length x - 1" "xa = lm_ahead x i (i + 1)"
  then show "((x, xa + 1, midpoints @ [(i + (xa - 1)) div 2]), x, i, midpoints)
       \<in> measure (\<lambda>(x, i, m). length x - i)"
    using lm_ahead_ge[of "i + 1" x i] by simp
qed auto

declare local_maxima_loop.simps [simp del]

definition local_maxima_1d :: "pyfloat list \<Rightarrow> nat list" where
  "local_maxima_1d x = local_maxima_loop x 1 []"

text \<open>
  \<^verbatim>\<open>_peak_prominences\<close> without a window: walk from the peak to the left, and then to the
  right, as long as the samples are not higher than the peak, and remember the lowest
  one on each side. The prominence is the height of the peak above the higher of the
  two.
\<close>

fun scan_base :: "pyfloat list \<Rightarrow> pyfloat \<Rightarrow> nat list \<Rightarrow> pyfloat \<times> nat \<Rightarrow> pyfloat \<times> nat" where
  "scan_base x x_peak [] (cur_min, base) = (cur_min, base)"
| "scan_base x x_peak (i # rest) (cur_min, base) =
     (if float_le (x ! i) x_peak
      then scan_base x x_peak rest (if float_lt (x ! i) cur_min then (x ! i, i) else (cur_min, base))
      else (cur_min, base))"

definition peak_prominence :: "pyfloat list \<Rightarrow> nat \<Rightarrow> pyfloat \<times> nat \<times> nat" where
  "peak_prominence x peak =
     (let (left_min, left_base) = scan_base x (x ! peak) (rev [0..<peak + 1]) (x ! peak, peak);
          (right_min, right_base) = scan_base x (x ! peak) [peak..<length x] (x ! peak, peak)
      in (float_sub (x ! peak) (float_max left_min right_min), left_base, right_base))"

text \<open>
  \<^verbatim>\<open>_select_by_peak_distance\<close>: going through the peaks from the highest to the lowest,
  every peak that is still kept drops its neighbours closer than \<^verbatim>\<open>distance\<close>.
  \<^verbatim>\<open>
  priority_to_position = np.argsort(priority)
  for i in range(peaks_size - 1, -1, -1):
      j = priority_to_position[i]
      if keep[j] == 0:
          continue
      k = j - 1
      while 0 <= k and peaks[j] - peaks[k] < distance_:
          keep[k] = 0
          k -= 1
      k = j + 1
      while k < peaks_size and peaks[k] - peaks[j] < distance_:
          keep[k] = 0
          k += 1
  \<close>
  The order in which \<^verbatim>\<open>numpy.argsort\<close> lists equal values is not specified; \<open>argsort\<close> is
  a parameter. The third argument of \<open>flag_earlier\<close> is \<open>k + 1\<close>.
\<close>

fun flag_earlier :: "nat list \<Rightarrow> nat \<Rightarrow> nat \<Rightarrow> int \<Rightarrow> bool list \<Rightarrow> bool list" where
  "flag_earlier peaks j 0 d keep = keep"
| "flag_earlier peaks j (Suc k) d keep =
     (if int (peaks ! j) - int (peaks ! k) < d
      then flag_earlier peaks j k d (keep[k := False]) else keep)"

function flag_later :: "nat list \<Rightarrow> nat \<Rightarrow> nat \<Rightarrow> int \<Rightarrow> bool list \<Rightarrow> bool list" where
  "flag_later peaks j k d keep =
     (if k < length peaks \<and> int (peaks ! k) - int (peaks ! j) < d
      then flag_later peaks j (k + 1) d (keep[k := False]) else keep)"
  by pat_completeness auto
termination
  by (relation "measure (\<lambda>(peaks, j, k, d, keep). length peaks - k)") auto

declare flag_later.simps [simp del]

fun select_loop :: "nat list \<Rightarrow> int \<Rightarrow> nat list \<Rightarrow> bool list \<Rightarrow> bool list" where
  "select_loop peaks d [] keep = keep"
| "select_loop peaks d (j # js) keep =
     (if \<not> keep ! j then select_loop peaks d js keep
      else select_loop peaks d js (flag_later peaks j (j + 1) d (flag_earlier peaks j j d keep)))"

definition select_by_peak_distance ::
  "(pyfloat list \<Rightarrow> nat list) \<Rightarrow> nat list \<Rightarrow> pyfloat list \<Rightarrow> int \<Rightarrow> bool list" where
  "select_by_peak_distance argsort peaks priority distance =
     select_loop peaks distance (rev (argsort priority)) (replicate (length peaks) True)"

text \<open>Boolean indexing \<^verbatim>\<open>xs[keep]\<close>.\<close>

definition kept :: "'a list \<Rightarrow> bool list \<Rightarrow> 'a list" where
  "kept xs keep = map fst (filter snd (zip xs keep))"

record peak_props =
  peak_heights :: "pyfloat list"
  prominences :: "pyfloat list"
  left_bases :: "nat list"
  right_bases :: "nat list"

definition find_peaks ::
  "(pyfloat list \<Rightarrow> nat list) \<Rightarrow> pyfloat list \<Rightarrow> pyfloat \<Rightarrow> pyfloat \<Rightarrow> int
     \<Rightarrow> error + nat list \<times> peak_props" where
  "find_peaks argsort x height prominence distance =
     (if distance < 1 then Inl ValueError
      else
        let peaks = local_maxima_1d x;
            peaks = kept peaks (map (\<lambda>p. float_le height (x ! p)) peaks);
            peaks = kept peaks
                      (select_by_peak_distance argsort peaks (map (\<lambda>p. x ! p) peaks) distance);
            proms = map (peak_prominence x) peaks;
            keep = map (\<lambda>pr. float_le prominence (fst pr)) proms;
            peaks = kept peaks keep;
            proms = kept proms keep
        in Inr (peaks,
                \<lparr>peak_heights = map (\<lambda>p. x ! p) peaks,
                 prominences = map fst proms,
                 left_bases = map (\<lambda>pr. fst (snd pr)) proms,
                 right_bases = map (\<lambda>pr. snd (snd pr)) proms\<rparr>))"

subsection \<open>The partitioner object\<close>

text \<open>
  The attributes of an edge that the bearing partitioner reads or writes; \<open>None\<close> means
  that the edge does not have the attribute. A bearing group is the centre value of a
  partition, \<^verbatim>\<open>None\<close> or NaN.
\<close>

record edge_data =
  bearing :: "pyfloat option"
  bearing_90 :: "pyfloat option"
  bearing_group :: "pyval option"

text \<open>
  \<^verbatim>\<open>_bin_info\<close>: the entries written by \<^verbatim>\<open>__bin_bearings\<close> and, once \<^verbatim>\<open>__find_peaks\<close> has
  run, those written by it. Median, minimum and maximum are only drawn by the plots
  and are left out.
\<close>

record peak_stats =
  ps_mean :: pyfloat
  ps_std :: pyfloat
  peak_ind :: "nat list"
  peak_properties :: peak_props

record bin_info =
  num_bins :: int
  bin_edges :: "real list"
  bin_frequency :: "pyfloat list"
  peak_stats :: "peak_stats option"

text \<open>\<^verbatim>\<open>_inter_vals\<close>: the two entries that \<^verbatim>\<open>run\<close> reads; \<open>None\<close> is a missing key.\<close>

record inter_vals =
  boundaries :: "real list option"
  center_values :: "real option list option"

record partition_entry =
  pe_name :: string
  pe_value :: real

text \<open>
  The object: the attributes of \<^verbatim>\<open>BasePartitioner\<close> (\<^verbatim>\<open>partitioner.py\<close>) and the two of
  \<^verbatim>\<open>BearingPartitioner\<close>. The graph is its edges with their attributes.
\<close>

record bearing_partitioner =
  bp_edges :: "edge list"
  bp_data :: "edge \<Rightarrow> edge_data"
  bp_name :: string
  partition :: "partition_entry list option"
  attribute_label :: "string option"
  attr_value_minmax :: "(real \<times> real) option"
  bp_bin_info :: "bin_info option"
  bp_inter_vals :: inter_vals

definition BearingPartitioner_init ::
  "edge list \<Rightarrow> (edge \<Rightarrow> edge_data) \<Rightarrow> string \<Rightarrow> bearing_partitioner" where
  "BearingPartitioner_init graph_edges graph_data graph_name =
     \<lparr>bp_edges = graph_edges, bp_data = graph_data, bp_name = graph_name,
      partition = None, attribute_label = None, attr_value_minmax = None,
      bp_bin_info = None, bp_inter_vals = \<lparr>boundaries = None, center_values = None\<rparr>\<rparr>"

text \<open>
  A method returns the exception it raised, if any, together with the object as the
  method left it: what was written before a \<^verbatim>\<open>raise\<close> stays written.
\<close>

subsection \<open>\<^verbatim>\<open>__bin_bearings\<close>\<close>

text \<open>\<^verbatim>\<open>bear % 90\<close> on floats.\<close>

fun py_mod_90 :: "pyfloat \<Rightarrow> pyfloat" where
  "py_mod_90 (Finite x) = Finite (x - 90 * of_int \<lfloor>x / 90\<rfloor>)"
| "py_mod_90 _ = NaN"

text \<open>
  Modelled from the spec: \<^verbatim>\<open>attribute.new_edge_attribute_by_function\<close> is not part of the
  sources at hand. The spec says that it reads the source attribute of every edge,
  applies the function and writes the result to the target attribute, and that a
  missing source attribute is propagated as None/NaN. Here the function is
  \<^verbatim>\<open>lambda bear: bear % 90\<close>, the source \<^verbatim>\<open>bearing\<close> and the target \<^verbatim>\<open>bearing_90\<close>.
\<close>

definition new_edge_attribute_bearing_90 :: "bearing_partitioner \<Rightarrow> bearing_partitioner" where
  "new_edge_attribute_bearing_90 s =
     s\<lparr>bp_data := (\<lambda>e. if e \<in> set (bp_edges s)
                         then (bp_data s e)\<lparr>bearing_90 :=
                                Some (case bearing (bp_data s e) of
                                        None \<Rightarrow> NaN
                                      | Some bear \<Rightarrow> py_mod_90 bear)\<rparr>
                         else bp_data s e)\<rparr>"

text \<open>\<^verbatim>\<open>np.arange(num_bins * 2 + 1) * 90 / (num_bins * 2)\<close>\<close>

definition histogram_bins :: "nat \<Rightarrow> real list" where
  "histogram_bins n = map (\<lambda>k. real k * 90 / real (n * 2)) [0..<n * 2 + 1]"

text \<open>
  \<^verbatim>\<open>numpy.histogram\<close> with given bin edges: a bin holds the values from its left edge up
  to, but not including, its right edge; the last bin includes its right edge. NaN and
  the infinities fall into no bin.
\<close>

definition np_histogram :: "pyfloat list \<Rightarrow> real list \<Rightarrow> nat list" where
  "np_histogram vals bins =
     map (\<lambda>k. length (filter (\<lambda>v. case v of
                                 Finite x \<Rightarrow> bins ! k \<le> x
                                   \<and> (if k + 2 = length bins then x \<le> bins ! (k + 1)
                                      else x < bins ! (k + 1))
                               | _ \<Rightarrow> False) vals))
       [0..<length bins - 1]"

text \<open>\<^verbatim>\<open>np.roll(count, 1)\<close>, \<^verbatim>\<open>count[::2] + count[1::2]\<close> and \<^verbatim>\<open>bin_edges[range(0, n, 2)]\<close>.\<close>

definition np_roll1 :: "'a list \<Rightarrow> 'a list" where
  "np_roll1 xs = (if xs = [] then [] else last xs # butlast xs)"

fun pair_sums :: "nat list \<Rightarrow> nat list" where
  "pair_sums (a # b # rest) = (a + b) # pair_sums rest"
| "pair_sums _ = []"

fun every_other :: "'a list \<Rightarrow> 'a list" where
  "every_other (a # b # rest) = a # every_other rest"
| "every_other [a] = [a]"
| "every_other [] = []"

text \<open>
  \<^verbatim>\<open>
  if num_bins < 360:
      raise ValueError(...)
  self._bin_info = {"num_bins": num_bins}
  attribute.new_edge_attribute_by_function(
      self.graph, lambda bear: bear % 90, "bearing", "bearing_90")
  bins = np.arange((num_bins * 2) + 1) * 90 / (num_bins * 2)
  count, bin_edges = np.histogram(
      list(nx.get_edge_attributes(self.graph, "bearing_90").values()), bins=bins)
  count = np.roll(count, 1)
  bin_counts = count[::2] + count[1::2]
  self._bin_info["bin_edges"] = bin_edges[range(0, len(bin_edges), 2)]
  self._bin_info["bin_frequency"] = bin_counts / bin_counts.sum()
  \<close>
  Nothing raises between the first and the last write to \<^verbatim>\<open>_bin_info\<close>, so the three
  entries are written together.
\<close>

definition bin_bearings :: "bearing_partitioner \<Rightarrow> int \<Rightarrow> error option \<times> bearing_partitioner" where
  "bin_bearings s n_bins =
     (if n_bins < 360 then (Some ValueError, s)
      else
        let s1 = new_edge_attribute_bearing_90 s;
            bins = histogram_bins (nat n_bins);
            vals = concat (map (\<lambda>e. case bearing_90 (bp_data s1 e) of None \<Rightarrow> [] | Some b \<Rightarrow> [b])
                             (remdups (bp_edges s1)));
            cnt = np_roll1 (np_histogram vals bins);
            bin_counts = pair_sums cnt;
            total = sum_list bin_counts
        in (None,
            s1\<lparr>bp_bin_info :=
                 Some \<lparr>num_bins = n_bins,
                       bin_edges = every_other bins,
                       bin_frequency =
                         map (\<lambda>c. if total = 0 then NaN else Finite (real c / real total))
                           bin_counts,
                       peak_stats = None\<rparr>\<rparr>))"

subsection \<open>\<^verbatim>\<open>__find_peaks\<close>\<close>

text \<open>
  \<^verbatim>\<open>
  if self._bin_info is None or not all(name in self._bin_info for name in [...]):
      raise AssertionError(...)
  self._bin_info["mean"] = np.mean(self._bin_info["bin_frequency"])
  self._bin_info["std"] = np.std(self._bin_info["bin_frequency"])
  self._bin_info["peak_ind"], self._bin_info["peak_props"] = find_peaks(
      self._bin_info["bin_frequency"],
      height=self._bin_info["mean"],
      prominence=self._bin_info["std"],
      distance=int(0.4 * self._bin_info["num_bins"] / 90),
  )
  \<close>
\<close>

definition find_peaks_method ::
  "(pyfloat list \<Rightarrow> nat list) \<Rightarrow> bearing_partitioner \<Rightarrow> error option \<times> bearing_partitioner" where
  "find_peaks_method argsort s =
     (case bp_bin_info s of
        None \<Rightarrow> (Some AssertionError, s)
      | Some bi \<Rightarrow>
          let mean = np_mean (bin_frequency bi);
              std = np_std (bin_frequency bi)
          in (case find_peaks argsort (bin_frequency bi) mean std
                     \<lfloor>0.4 * real_of_int (num_bins bi) / 90\<rfloor> of
                Inl e \<Rightarrow> (Some e, s)
              | Inr (peaks, props) \<Rightarrow>
                  (None, s\<lparr>bp_bin_info :=
                             Some (bi\<lparr>peak_stats :=
                                       Some \<lparr>ps_mean = mean, ps_std = std, peak_ind = peaks,
                                             peak_properties = props\<rparr>\<rparr>)\<rparr>)))"

subsection \<open>\<^verbatim>\<open>run\<close>\<close>

text \<open>\<^verbatim>\<open>bisect.bisect_right\<close> and indexing a list with a possibly negative index.\<close>

function bisect_right_loop :: "real list \<Rightarrow> pyfloat \<Rightarrow> nat \<Rightarrow> nat \<Rightarrow> nat" where
  "bisect_right_loop a x lo hi =
     (if lo < hi then
        (let mid = (lo + hi) div 2 in
         if float_lt x (Finite (a ! mid)) then bisect_right_loop a x lo mid
         else bisect_right_loop a x (mid + 1) hi)
      else lo)"
  by pat_completeness auto
termination
  by (relation "measure (\<lambda>(a, x, lo, hi). hi - lo)") auto

declare bisect_right_loop.simps [simp del]

definition bisect_right :: "real list \<Rightarrow> pyfloat \<Rightarrow> nat" where
  "bisect_right a x = bisect_right_loop a x 0 (length a)"

definition py_index :: "'a list \<Rightarrow> int \<Rightarrow> error + 'a" where
  "py_index xs i =
     (if 0 \<le> i \<and> i < int (length xs) then Inr (xs ! nat i)
      else if i < 0 \<and> - int (length xs) \<le> i then Inr (xs ! nat (int (length xs) + i))
      else Inl IndexError)"

text \<open>
  The body of the loop over \<^verbatim>\<open>group_bearing.items()\<close>:
  \<^verbatim>\<open>
  if np.isnan(bearing):
      group_bearing[node] = np.nan
  else:
      i = bisect_right(self._inter_vals["boundaries"], bearing)
      group_bearing[node] = self._inter_vals["center_values"][i - 1]
  \<close>
\<close>

definition group_of ::
  "real list option \<Rightarrow> real option list option \<Rightarrow> pyfloat \<Rightarrow> error + pyval" where
  "group_of bounds centers bear =
     (if bear = NaN then Inr (PFloat NaN)
      else (case bounds of
              None \<Rightarrow> Inl KeyError
            | Some bs \<Rightarrow>
                let i = bisect_right bs bear in
                (case centers of
                   None \<Rightarrow> Inl KeyError
                 | Some cvs \<Rightarrow>
                     (case py_index cvs (int i - 1) of
                        Inl e \<Rightarrow> Inl e
                      | Inr None \<Rightarrow> Inr PNone
                      | Inr (Some c) \<Rightarrow> Inr (PFloat (Finite c))))))"

fun group_bearings ::
  "real list option \<Rightarrow> real option list option \<Rightarrow> (edge \<times> pyfloat) list
     \<Rightarrow> error + (edge \<times> pyval) list" where
  "group_bearings bounds centers [] = Inr []"
| "group_bearings bounds centers ((e, bear) # rest) =
     (case group_of bounds centers bear of
        Inl err \<Rightarrow> Inl err
      | Inr v \<Rightarrow>
          (case group_bearings bounds centers rest of
             Inl err \<Rightarrow> Inl err
           | Inr vs \<Rightarrow> Inr ((e, v) # vs)))"

text \<open>
  \<^verbatim>\<open>nx.get_edge_attributes(self.graph, "bearing_90")\<close> and
  \<^verbatim>\<open>nx.set_edge_attributes(self.graph, group_bearing, self.attribute_label)\<close>.
\<close>

definition get_bearing_90 :: "bearing_partitioner \<Rightarrow> (edge \<times> pyfloat) list" where
  "get_bearing_90 s =
     concat (map (\<lambda>e. case bearing_90 (bp_data s e) of None \<Rightarrow> [] | Some b \<Rightarrow> [(e, b)])
               (remdups (bp_edges s)))"

definition set_bearing_group ::
  "bearing_partitioner \<Rightarrow> (edge \<times> pyval) list \<Rightarrow> bearing_partitioner" where
  "set_bearing_group s vals =
     s\<lparr>bp_data := (\<lambda>e. case map_of vals e of
                          None \<Rightarrow> bp_data s e
                        | Some v \<Rightarrow> (bp_data s e)\<lparr>bearing_group := Some v\<rparr>)\<rparr>"

text \<open>
  The list comprehension that builds \<^verbatim>\<open>self.partition\<close>; how Python prints the list
  \<^verbatim>\<open>boundaries[i : i + 2]\<close> is the parameter \<open>list_str\<close>.
\<close>

definition partition_entries ::
  "(real list \<Rightarrow> string) \<Rightarrow> real list \<Rightarrow> real option list \<Rightarrow> partition_entry list" where
  "partition_entries list_str bounds centers =
     concat (map (\<lambda>(i, center_val).
                    case center_val of
                      None \<Rightarrow> []
                    | Some c \<Rightarrow> [\<lparr>pe_name = list_str (take 2 (drop i bounds)), pe_value = c\<rparr>])
               (enumerate 0 centers))"

text \<open>
  \<^verbatim>\<open>
  self.__bin_bearings(num_bins=360)
  self.__find_peaks()
  if len(self._bin_info["peak_ind"]) < 1:
      raise ArithmeticError("No peaks were found.")
  self.__make_boundaries()
  self.attribute_label = "bearing_group"
  group_bearing = nx.get_edge_attributes(self.graph, "bearing_90")
  for node, bearing in group_bearing.items():
      ...
  nx.set_edge_attributes(self.graph, group_bearing, self.attribute_label)
  self.partition = [...]
  \<close>
  \<^verbatim>\<open>__make_boundaries\<close> turns the bases of the peaks into \<^verbatim>\<open>boundaries\<close> and
  \<^verbatim>\<open>center_values\<close>. It iterates over Python sets, whose order is not specified, and it
  is called only after the test for peaks; it is the parameter \<open>make_boundaries\<close>, and
  what follows holds for every such method.
\<close>

definition run ::
  "(pyfloat list \<Rightarrow> nat list) \<Rightarrow> (bearing_partitioner \<Rightarrow> error option \<times> bearing_partitioner)
     \<Rightarrow> (real list \<Rightarrow> string) \<Rightarrow> bearing_partitioner \<Rightarrow> error option \<times> bearing_partitioner" where
  "run argsort make_boundaries list_str s =
     (case bin_bearings s 360 of
        (Some e, s1) \<Rightarrow> (Some e, s1)
      | (None, s1) \<Rightarrow>
     (case find_peaks_method argsort s1 of
        (Some e, s2) \<Rightarrow> (Some e, s2)
      | (None, s2) \<Rightarrow>
     (case Option.bind (bp_bin_info s2) peak_stats of
        None \<Rightarrow> (Some KeyError, s2)
      | Some stats \<Rightarrow>
          if length (peak_ind stats) < 1 then (Some ArithmeticError, s2)
          else
     (case make_boundaries s2 of
        (Some e, s3) \<Rightarrow> (Some e, s3)
      | (None, s3) \<Rightarrow>
          let s4 = s3\<lparr>attribute_label := Some ''bearing_group''\<rparr> in
          (case group_bearings (boundaries (bp_inter_vals s4)) (center_values (bp_inter_vals s4))
                  (get_bearing_90 s4) of
             Inl e \<Rightarrow> (Some e, s4)
           | Inr group_bearing \<Rightarrow>
               let s5 = set_bearing_group s4 group_bearing in
               (case (boundaries (bp_inter_vals s5), center_values (bp_inter_vals s5)) of
                  (Some bs, Some cvs) \<Rightarrow>
                    (None, s5\<lparr>partition := Some (partition_entries list_str bs cvs)\<rparr>)
                | _ \<Rightarrow> (Some KeyError, s5)))))))"

text \<open>The peaks that the first two steps of \<^verbatim>\<open>run\<close> find.\<close>

definition detected_peaks ::
  "(pyfloat list \<Rightarrow> nat list) \<Rightarrow> bearing_partitioner \<Rightarrow> nat list option" where
  "detected_peaks argsort s =
     (case bin_bearings s 360 of
        (Some e, s1) \<Rightarrow> None
      | (None, s1) \<Rightarrow>
          (case find_peaks_method argsort s1 of
             (Some e, s2) \<Rightarrow> None
           | (None, s2) \<Rightarrow> map_option peak_ind (Option.bind (bp_bin_info s2) peak_stats)))"

subsection \<open>Peak detection: height, prominence and separation\<close>

lemma kept_map: "kept xs (map P xs) = filter P xs"
  by (induction xs) (auto simp: kept_def)

lemma kept_all: "kept xs (replicate (length xs) True) = xs"
  by (induction xs) (auto simp: kept_def)

text \<open>
  Two local maxima are never next to each other: after a peak whose plateau ends at
  \<open>i_ahead - 1\<close> the search goes on at \<open>i_ahead + 1\<close>, so the sample \<open>i_ahead\<close>, which is
  lower than the peak, lies between this peak and the next.
\<close>

lemma local_maxima_loop_gapped:
  "sorted_wrt (\<lambda>a b. a + 2 \<le> b) acc \<Longrightarrow> \<forall>a \<in> set acc. a + 2 \<le> i
   \<Longrightarrow> sorted_wrt (\<lambda>a b. a + 2 \<le> b) (local_maxima_loop x i acc)"
proof (induction x i acc rule: local_maxima_loop.induct)
  case (1 x i midpoints)
  show ?case
  proof (cases "i < length x - 1")
    case False
    then show ?thesis using "1.prems" by (subst local_maxima_loop.simps) simp
  next
    case True
    show ?thesis
    proof (cases "float_lt (x ! (i - 1)) (x ! i)")
      case False
      have "sorted_wrt (\<lambda>a b. a + 2 \<le> b) (local_maxima_loop x (i + 1) midpoints)"
        using "1.IH"(3)[OF True False] "1.prems" by force
      then show ?thesis using True False by (subst local_maxima_loop.simps) simp
    next
      case lt: True
      define ia where "ia = lm_ahead x i (i + 1)"
      have ia: "i + 1 \<le> ia" unfolding ia_def by (rule lm_ahead_ge)
      show ?thesis
      proof (cases "float_lt (x ! ia) (x ! i)")
        case False
        have "sorted_wrt (\<lambda>a b. a + 2 \<le> b) (local_maxima_loop x (i + 1) midpoints)"
          using "1.IH"(2)[OF True lt ia_def False] "1.prems" by force
        then show ?thesis using True lt False ia_def
          by (subst local_maxima_loop.simps) (simp add: Let_def)
      next
        case peak: True
        let ?m = "(i + (ia - 1)) div 2"
        have m: "i \<le> ?m" "?m + 1 \<le> ia" using ia by auto
        have s: "sorted_wrt (\<lambda>a b. a + 2 \<le> b) (midpoints @ [?m])"
          using "1.prems" m by (auto simp: sorted_wrt_append)
        have b: "\<forall>a \<in> set (midpoints @ [?m]). a + 2 \<le> ia + 1"
          using "1.prems" m ia by auto
        have "sorted_wrt (\<lambda>a b. a + 2 \<le> b) (local_maxima_loop x (ia + 1) (midpoints @ [?m]))"
          using "1.IH"(1)[OF True lt ia_def peak s b] .
        then show ?thesis using True lt peak ia_def
          by (subst local_maxima_loop.simps) (simp add: Let_def)
      qed
    qed
  qed
qed

lemma local_maxima_1d_gapped: "sorted_wrt (\<lambda>a b. a + 2 \<le> b) (local_maxima_1d x)"
  unfolding local_maxima_1d_def by (rule local_maxima_loop_gapped) simp_all

lemma local_maxima_loop_bound:
  "\<forall>a \<in> set acc. a + 1 < length x
   \<Longrightarrow> \<forall>a \<in> set (local_maxima_loop x i acc). a + 1 < length x"
proof (induction x i acc rule: local_maxima_loop.induct)
  case (1 x i midpoints)
  show ?case
  proof (cases "i < length x - 1")
    case False
    then show ?thesis using "1.prems" by (subst local_maxima_loop.simps) simp
  next
    case True
    show ?thesis
    proof (cases "float_lt (x ! (i - 1)) (x ! i)")
      case False
      then show ?thesis using True "1.IH"(3)[OF True False "1.prems"]
        by (subst local_maxima_loop.simps) simp
    next
      case lt: True
      define ia where "ia = lm_ahead x i (i + 1)"
      have ia: "i + 1 \<le> ia" unfolding ia_def by (rule lm_ahead_ge)
      have ia_le: "ia \<le> length x - 1" unfolding ia_def using True by (intro lm_ahead_le) simp
      show ?thesis
      proof (cases "float_lt (x ! ia) (x ! i)")
        case False
        then show ?thesis using True lt ia_def "1.IH"(2)[OF True lt ia_def False "1.prems"]
          by (subst local_maxima_loop.simps) (simp add: Let_def)
      next
        case peak: True
        let ?m = "(i + (ia - 1)) div 2"
        have "?m + 1 < length x" using ia ia_le True by auto
        with "1.prems" have b: "\<forall>a \<in> set (midpoints @ [?m]). a + 1 < length x" by auto
        show ?thesis using True lt peak ia_def "1.IH"(1)[OF True lt ia_def peak b]
          by (subst local_maxima_loop.simps) (simp add: Let_def)
      qed
    qed
  qed
qed

lemma local_maxima_1d_bound: "p \<in> set (local_maxima_1d x) \<Longrightarrow> p + 1 < length x"
  using local_maxima_loop_bound[of "[]" x 1] by (simp add: local_maxima_1d_def)

lemma gapped_strict: "sorted_wrt (\<lambda>a b. a + 2 \<le> b) ps \<Longrightarrow> sorted_wrt (<) (ps :: nat list)"
  by (erule sorted_wrt_mono_rel[rotated]) simp

lemma gapped_apart:
  assumes "sorted_wrt (\<lambda>a b. a + 2 \<le> b) ps" "p \<in> set ps" "q \<in> set ps" "p \<noteq> q"
  shows "p + 2 \<le> q \<or> q + 2 \<le> (p :: nat)"
proof -
  from assms(2,3) obtain i j where ij: "i < length ps" "ps ! i = p" "j < length ps" "ps ! j = q"
    by (auto simp: in_set_conv_nth)
  with assms(4) have "i \<noteq> j" by auto
  then consider "i < j" | "j < i" by linarith
  then show ?thesis
  proof cases
    case 1
    with assms(1) ij show ?thesis by (auto simp: sorted_wrt_iff_nth_less)
  next
    case 2
    with assms(1) ij show ?thesis by (auto simp: sorted_wrt_iff_nth_less)
  qed
qed

text \<open>
  With \<^verbatim>\<open>distance = 1\<close> the distance step drops nothing: the peaks are strictly
  increasing positions, so two of them are at least one sample apart.
\<close>

lemma flag_earlier_noop:
  assumes "sorted_wrt (<) peaks" "j < length peaks" "k \<le> j"
  shows "flag_earlier peaks j k 1 keep = keep"
proof (cases k)
  case 0 then show ?thesis by simp
next
  case (Suc k')
  with assms have "peaks ! k' < peaks ! j"
    by (simp add: sorted_wrt_nth_less)
  with Suc show ?thesis by simp
qed

lemma flag_later_noop:
  assumes "sorted_wrt (<) peaks" "j < k"
  shows "flag_later peaks j k 1 keep = keep"
proof (cases "k < length peaks")
  case True
  with assms have "peaks ! j < peaks ! k" by (simp add: sorted_wrt_nth_less)
  then show ?thesis by (subst flag_later.simps) simp
next
  case False
  then show ?thesis by (subst flag_later.simps) simp
qed

lemma select_loop_noop:
  assumes "sorted_wrt (<) peaks" "set js \<subseteq> {..<length peaks}"
  shows "select_loop peaks 1 js keep = keep"
  using assms(2)
proof (induction js arbitrary: keep)
  case Nil then show ?case by simp
next
  case (Cons j js)
  then have j: "j < length peaks" and js: "set js \<subseteq> {..<length peaks}" by auto
  show ?case
    using Cons.IH[OF js] flag_earlier_noop[OF assms(1) j, of j]
      flag_later_noop[OF assms(1), of j "j + 1"]
    by simp
qed

text \<open>What is known of \<^verbatim>\<open>numpy.argsort\<close>: it returns a permutation of the positions.\<close>

definition valid_argsort :: "(pyfloat list \<Rightarrow> nat list) \<Rightarrow> bool" where
  "valid_argsort argsort =
     (\<forall>xs. distinct (argsort xs) \<and> set (argsort xs) = {..<length xs})"

lemma valid_argsort_set: "valid_argsort argsort \<Longrightarrow> set (argsort xs) = {..<length xs}"
  by (simp add: valid_argsort_def)

lemma select_by_peak_distance_one:
  assumes "valid_argsort argsort" "sorted_wrt (<) peaks" "length priority = length peaks"
  shows "select_by_peak_distance argsort peaks priority 1 = replicate (length peaks) True"
  unfolding select_by_peak_distance_def
  using select_loop_noop[OF assms(2), of "rev (argsort priority)"]
    valid_argsort_set[OF assms(1), of priority] assms(3)
  by simp

text \<open>
  The peaks as the description of \<^verbatim>\<open>__find_peaks\<close> has them: the local maxima whose
  height is at least \<open>height\<close> and whose prominence is at least \<open>prominence\<close>.
\<close>

definition prominence_of :: "pyfloat list \<Rightarrow> nat \<Rightarrow> pyfloat" where
  "prominence_of x p = fst (peak_prominence x p)"

definition selected_peaks :: "pyfloat list \<Rightarrow> pyfloat \<Rightarrow> pyfloat \<Rightarrow> nat list" where
  "selected_peaks x height prominence =
     filter (\<lambda>p. float_le height (x ! p) \<and> float_le prominence (prominence_of x p))
       (local_maxima_1d x)"

lemma find_peaks_distance_one:
  assumes "valid_argsort argsort"
  shows "\<exists>props. find_peaks argsort x height prominence 1
                   = Inr (selected_peaks x height prominence, props)"
proof -
  let ?p1 = "filter (\<lambda>p. float_le height (x ! p)) (local_maxima_1d x)"
  have s1: "sorted_wrt (<) ?p1"
    using gapped_strict[OF local_maxima_1d_gapped[of x]] by (rule sorted_wrt_filter)
  have sel: "select_by_peak_distance argsort ?p1 (map (\<lambda>p. x ! p) ?p1) 1
               = replicate (length ?p1) True"
    by (rule select_by_peak_distance_one[OF assms s1]) simp
  have keepmap: "map (\<lambda>pr. float_le prominence (fst pr)) (map (peak_prominence x) ?p1)
         = map (\<lambda>p. float_le prominence (prominence_of x p)) ?p1"
    by (simp add: prominence_of_def)
  show ?thesis
    unfolding find_peaks_def Let_def kept_map sel kept_all keepmap
    by (simp add: selected_peaks_def)
qed

text \<open>The merged histogram: bin \<open>p\<close> of \<open>n\<close> starts at \<open>p * 90 / n\<close> degrees.\<close>

lemma every_other_snoc2:
  "odd (length xs) \<Longrightarrow> every_other (xs @ [a, b]) = every_other xs @ [b]"
  by (induction xs rule: every_other.induct) auto

lemma every_other_map_upt:
  "every_other (map f [0..<2 * n + 1]) = map (\<lambda>k. f (2 * k)) [0..<n + 1]"
proof (induction n)
  case 0 then show ?case by simp
next
  case (Suc n)
  have "[0..<2 * Suc n + 1] = [0..<2 * n + 1] @ [2 * n + 1, 2 * n + 2]" by simp
  then have "map f [0..<2 * Suc n + 1] = map f [0..<2 * n + 1] @ [f (2 * n + 1), f (2 * n + 2)]"
    by simp
  then show ?case using Suc every_other_snoc2[of "map f [0..<2 * n + 1]"] by simp
qed

lemma bin_edges_nth:
  assumes "p \<le> n"
  shows "every_other (histogram_bins n) ! p = real (2 * p) * 90 / real (n * 2)"
proof -
  have "every_other (histogram_bins n)
          = every_other (map (\<lambda>k. real k * 90 / real (n * 2)) [0..<2 * n + 1])"
    by (simp only: histogram_bins_def mult.commute[of n 2])
  also have "\<dots> = map (\<lambda>k. real (2 * k) * 90 / real (n * 2)) [0..<n + 1]"
    by (rule every_other_map_upt)
  finally have "every_other (histogram_bins n) ! p
                  = map (\<lambda>k. real (2 * k) * 90 / real (n * 2)) [0..<n + 1] ! p"
    by simp
  also have "\<dots> = real (2 * p) * 90 / real (n * 2)"
    using assms by (simp only: nth_map_upt[of p "n + 1" 0]) simp
  finally show ?thesis .
qed

lemma length_pair_sums: "length (pair_sums xs) = length xs div 2"
  by (induction xs rule: pair_sums.induct) auto

lemma length_np_roll1: "length (np_roll1 xs) = length xs"
  by (cases xs rule: rev_cases) (auto simp: np_roll1_def)

lemma length_np_histogram: "length (np_histogram vals bins) = length bins - 1"
  by (simp add: np_histogram_def)

text \<open>
  The histogram that \<^verbatim>\<open>__bin_bearings(num_bins=360)\<close> writes to \<^verbatim>\<open>_bin_info\<close>, as a
  function of the object.
\<close>

definition binned :: "bearing_partitioner \<Rightarrow> bin_info" where
  "binned s =
     (let s1 = new_edge_attribute_bearing_90 s;
          bins = histogram_bins 360;
          vals = concat (map (\<lambda>e. case bearing_90 (bp_data s1 e) of None \<Rightarrow> [] | Some b \<Rightarrow> [b])
                           (remdups (bp_edges s1)));
          bin_counts = pair_sums (np_roll1 (np_histogram vals bins));
          total = sum_list bin_counts
      in \<lparr>num_bins = 360, bin_edges = every_other bins,
          bin_frequency =
            map (\<lambda>c. if total = 0 then NaN else Finite (real c / real total)) bin_counts,
          peak_stats = None\<rparr>)"

lemma bin_bearings_360:
  "bin_bearings s 360
     = (None, (new_edge_attribute_bearing_90 s)\<lparr>bp_bin_info := Some (binned s)\<rparr>)"
  by (simp add: bin_bearings_def binned_def Let_def)

lemma binned_facts:
  "num_bins (binned s) = 360"
  "length (bin_frequency (binned s)) = 360"
  "bin_edges (binned s) = every_other (histogram_bins 360)"
  by (simp_all add: binned_def Let_def length_pair_sums length_np_roll1 length_np_histogram
      histogram_bins_def)

lemma find_peaks_method_binned:
  assumes "valid_argsort argsort"
  shows "\<exists>props.
     find_peaks_method argsort ((new_edge_attribute_bearing_90 s)\<lparr>bp_bin_info := Some (binned s)\<rparr>)
       = (None, (new_edge_attribute_bearing_90 s)\<lparr>bp_bin_info :=
            Some ((binned s)\<lparr>peak_stats :=
               Some \<lparr>ps_mean = np_mean (bin_frequency (binned s)),
                     ps_std = np_std (bin_frequency (binned s)),
                     peak_ind = selected_peaks (bin_frequency (binned s))
                                  (np_mean (bin_frequency (binned s)))
                                  (np_std (bin_frequency (binned s))),
                     peak_properties = props\<rparr>\<rparr>)\<rparr>)"
proof -
  from find_peaks_distance_one[OF assms, of "bin_frequency (binned s)"
      "np_mean (bin_frequency (binned s))" "np_std (bin_frequency (binned s))"]
  obtain props where
    "find_peaks argsort (bin_frequency (binned s)) (np_mean (bin_frequency (binned s)))
       (np_std (bin_frequency (binned s))) 1
     = Inr (selected_peaks (bin_frequency (binned s)) (np_mean (bin_frequency (binned s)))
              (np_std (bin_frequency (binned s))), props)" by blast
  then show ?thesis
    by (intro exI[of _ props]) (simp add: find_peaks_method_def Let_def binned_facts(1))
qed

lemma detected_peaks_eq:
  assumes "valid_argsort argsort"
  shows "detected_peaks argsort s
    = Some (selected_peaks (bin_frequency (binned s)) (np_mean (bin_frequency (binned s)))
               (np_std (bin_frequency (binned s))))"
proof -
  from find_peaks_method_binned[OF assms, of s] obtain props where
    "find_peaks_method argsort ((new_edge_attribute_bearing_90 s)\<lparr>bp_bin_info := Some (binned s)\<rparr>)
       = (None, (new_edge_attribute_bearing_90 s)\<lparr>bp_bin_info :=
            Some ((binned s)\<lparr>peak_stats :=
               Some \<lparr>ps_mean = np_mean (bin_frequency (binned s)),
                     ps_std = np_std (bin_frequency (binned s)),
                     peak_ind = selected_peaks (bin_frequency (binned s))
                                  (np_mean (bin_frequency (binned s)))
                                  (np_std (bin_frequency (binned s))),
                     peak_properties = props\<rparr>\<rparr>)\<rparr>)" by blast
  then show ?thesis
    by (simp add: detected_peaks_def bin_bearings_360)
qed

text \<open>
  Claim C7 (peak detection of the bearing partitioner). On every graph, binning with
  360 bins and then \<^verbatim>\<open>__find_peaks\<close> both return without an exception, and the peaks
  written to \<^verbatim>\<open>_bin_info["peak_ind"]\<close> are exactly the local maxima of the merged
  histogram whose height is at least the mean of the bin frequencies and whose
  prominence is at least their standard deviation. Any two of these peaks lie at least
  0.4 degrees apart, measured between the left edges of their bins.

  The argument \<^verbatim>\<open>distance\<close> that the code passes is \<^verbatim>\<open>int(0.4 * 360 / 90) = int(1.6) = 1\<close>
  bin, a quarter of a degree, and with it the distance step of \<^verbatim>\<open>find_peaks\<close> drops no
  peak. The separation holds nevertheless: two local maxima have a lower bin between
  them, so they are at least two bins, half a degree, apart.
\<close>

theorem find_peaks_height_prominence_separation:
  assumes "valid_argsort argsort"
  shows "\<exists>s1 s2 bi stats.
      bin_bearings s 360 = (None, s1)
    \<and> find_peaks_method argsort s1 = (None, s2)
    \<and> bp_bin_info s2 = Some bi \<and> peak_stats bi = Some stats
    \<and> num_bins bi = 360
    \<and> peak_ind stats
        = selected_peaks (bin_frequency bi) (np_mean (bin_frequency bi)) (np_std (bin_frequency bi))
    \<and> (\<forall>p \<in> set (peak_ind stats). \<forall>q \<in> set (peak_ind stats).
          p \<noteq> q \<longrightarrow> 4 / 10 \<le> \<bar>bin_edges bi ! p - bin_edges bi ! q\<bar>)"
proof -
  let ?x = "bin_frequency (binned s)"
  let ?sel = "selected_peaks ?x (np_mean ?x) (np_std ?x)"
  from find_peaks_method_binned[OF assms, of s] obtain props where
    fp: "find_peaks_method argsort
           ((new_edge_attribute_bearing_90 s)\<lparr>bp_bin_info := Some (binned s)\<rparr>)
       = (None, (new_edge_attribute_bearing_90 s)\<lparr>bp_bin_info :=
            Some ((binned s)\<lparr>peak_stats :=
               Some \<lparr>ps_mean = np_mean ?x, ps_std = np_std ?x, peak_ind = ?sel,
                     peak_properties = props\<rparr>\<rparr>)\<rparr>)" by blast
  have sep: "4 / 10 \<le> \<bar>bin_edges (binned s) ! p - bin_edges (binned s) ! q\<bar>"
    if "p \<in> set ?sel" "q \<in> set ?sel" "p \<noteq> q" for p q
  proof -
    from that have pq: "p \<in> set (local_maxima_1d ?x)" "q \<in> set (local_maxima_1d ?x)"
      by (simp_all add: selected_peaks_def)
    then have bound: "p \<le> 360" "q \<le> 360"
      using local_maxima_1d_bound[of p ?x] local_maxima_1d_bound[of q ?x] binned_facts(2)[of s]
      by simp_all
    have edges: "bin_edges (binned s) ! p = real p / 4" "bin_edges (binned s) ! q = real q / 4"
      using bound bin_edges_nth[of p 360] bin_edges_nth[of q 360] by (simp_all add: binned_facts(3))
    from gapped_apart[OF local_maxima_1d_gapped pq that(3)]
    have "real p + 2 \<le> real q \<or> real q + 2 \<le> real p" by linarith
    then show ?thesis unfolding edges by (auto simp: abs_real_def)
  qed
  show ?thesis
    using bin_bearings_360[of s] fp sep binned_facts(1)[of s]
    by (intro exI[of _ "(new_edge_attribute_bearing_90 s)\<lparr>bp_bin_info := Some (binned s)\<rparr>"]
            exI[of _ "(new_edge_attribute_bearing_90 s)\<lparr>bp_bin_info :=
              Some ((binned s)\<lparr>peak_stats :=
                 Some \<lparr>ps_mean = np_mean ?x, ps_std = np_std ?x, peak_ind = ?sel,
                       peak_properties = props\<rparr>\<rparr>)\<rparr>"]
            exI[of _ "(binned s)\<lparr>peak_stats :=
                 Some \<lparr>ps_mean = np_mean ?x, ps_std = np_std ?x, peak_ind = ?sel,
                       peak_properties = props\<rparr>\<rparr>"]
            exI[of _ "\<lparr>ps_mean = np_mean ?x, ps_std = np_std ?x, peak_ind = ?sel,
                       peak_properties = props\<rparr>"]) simp
qed

text \<open>
  An example: two streets with the bearings 10 and 145 degrees, that is 10 and 55
  degrees modulo 90. Each fills one bin, number 40 and number 220, with half of the
  edges. Both bins are peaks, with the height and the prominence \<open>1 / 2\<close>, above the mean
  \<open>1 / 360\<close> and the standard deviation \<open>sqrt 179 / 360\<close>; they are 45 degrees apart.
\<close>

definition example_argsort :: "pyfloat list \<Rightarrow> nat list" where
  "example_argsort xs = sort_key (\<lambda>i. case xs ! i of Finite r \<Rightarrow> r | _ \<Rightarrow> 0) [0..<length xs]"

lemma example_argsort_valid: "valid_argsort example_argsort"
  by (auto simp: valid_argsort_def example_argsort_def)

definition two_bearings :: "edge \<Rightarrow> edge_data" where
  "two_bearings e =
     \<lparr>bearing = (if e = (1, 2, 0) then Some (Finite 10)
                 else if e = (2, 3, 0) then Some (Finite 145)
                 else None),
      bearing_90 = None, bearing_group = None\<rparr>"

definition two_streets :: bearing_partitioner where
  "two_streets = BearingPartitioner_init [(1, 2, 0), (2, 3, 0)] two_bearings ''two streets''"

definition two_frequency :: "real list" where
  "two_frequency = (replicate 360 0)[40 := 1 / 2, 220 := 1 / 2]"

lemma np_roll1_nth:
  "i < length xs \<Longrightarrow> np_roll1 xs ! i = (if i = 0 then last xs else xs ! (i - 1))"
  by (cases xs rule: rev_cases) (auto simp: np_roll1_def nth_Cons nth_append split: nat.splits)

lemma pair_sums_nth:
  "k < length xs div 2 \<Longrightarrow> pair_sums xs ! k = xs ! (2 * k) + xs ! (2 * k + 1)"
proof (induction xs arbitrary: k rule: pair_sums.induct)
  case (1 a b rest)
  then show ?case by (cases k) auto
qed auto

lemma np_sum_Finite: "foldl float_add (Finite a) (map Finite rs) = Finite (a + sum_list rs)"
  by (induction rs arbitrary: a) (auto simp: algebra_simps)

lemma sum_list_update_real:
  "k < length xs \<Longrightarrow> sum_list (xs[k := v]) = sum_list xs - xs ! k + (v::real)"
  by (induction xs arbitrary: k) (auto split: nat.splits)

lemma two_streets_frequency:
  "bin_frequency (binned two_streets) = map Finite two_frequency"
proof -
  have vals: "concat (map (\<lambda>e. case bearing_90
                                      (bp_data (new_edge_attribute_bearing_90 two_streets) e) of
                               None \<Rightarrow> [] | Some b \<Rightarrow> [b])
                (remdups (bp_edges (new_edge_attribute_bearing_90 two_streets))))
      = [Finite 10, Finite 55]"
    by (simp add: new_edge_attribute_bearing_90_def two_streets_def
        BearingPartitioner_init_def two_bearings_def)
  have hist: "np_histogram [Finite 10, Finite 55] (histogram_bins 360)
                = (replicate 720 0)[80 := 1, 440 := 1]"
    by (rule nth_equalityI)
       (simp_all add: np_histogram_def histogram_bins_def nth_list_update)
  have rolled: "np_roll1 ((replicate 720 0)[80 := 1, 440 := 1])
                  = (replicate 720 (0::nat))[81 := 1, 441 := 1]"
    by (rule nth_equalityI)
       (auto simp: length_np_roll1 np_roll1_nth nth_list_update last_list_update)
  have counts: "pair_sums ((replicate 720 0)[81 := 1, 441 := 1])
                  = (replicate 360 (0::nat))[40 := 1, 220 := 1]"
    by (rule nth_equalityI)
       (auto simp: length_pair_sums pair_sums_nth nth_list_update)
  have total: "sum_list ((replicate 360 (0::nat))[40 := 1, 220 := 1]) = 2"
    by (simp add: sum_list_update nth_list_update)
  show ?thesis
    unfolding binned_def Let_def vals hist rolled counts total two_frequency_def
    by (simp add: map_update)
qed

lemma two_maxima: "local_maxima_1d (map Finite two_frequency) = [40, 220]"
  by (simp add: local_maxima_1d_def local_maxima_loop.simps lm_ahead.simps two_frequency_def
      nth_list_update)

lemma two_sum: "sum_list two_frequency = 1"
  by (simp add: two_frequency_def sum_list_update_real nth_list_update sum_list_replicate)

lemma two_mean: "np_mean (map Finite two_frequency) = Finite (1 / 360)"
  by (simp add: np_mean_def np_sum_def np_sum_Finite two_sum) (simp add: two_frequency_def)

lemma two_deviations:
  "map (\<lambda>x. float_square (float_sub x (Finite (1 / 360)))) (map Finite two_frequency)
     = map Finite ((replicate 360 (1 / 129600))[40 := 32041 / 129600, 220 := 32041 / 129600])"
  by (simp add: two_frequency_def map_update float_sub_def power2_eq_square)

lemma two_std: "np_std (map Finite two_frequency) = Finite (sqrt (179 / 129600))"
  unfolding np_std_def two_mean two_deviations
  by (simp add: np_mean_def np_sum_def np_sum_Finite sum_list_update_real nth_list_update
      sum_list_replicate)

lemma two_std_le: "sqrt (179 / 129600) \<le> (1 / 2 :: real)"
  by (rule real_le_lsqrt) (simp_all add: power2_eq_square)

lemma two_prominence_40: "prominence_of (map Finite two_frequency) 40 = Finite (1 / 2)"
  by (simp add: prominence_of_def peak_prominence_def two_frequency_def nth_list_update
      float_sub_def float_max_def upt_conv_Cons)

lemma two_prominence_220: "prominence_of (map Finite two_frequency) 220 = Finite (1 / 2)"
  by (simp add: prominence_of_def peak_prominence_def two_frequency_def nth_list_update
      float_sub_def float_max_def upt_conv_Cons)

lemma two_selected:
  "selected_peaks (map Finite two_frequency) (np_mean (map Finite two_frequency))
     (np_std (map Finite two_frequency)) = [40, 220]"
  unfolding selected_peaks_def two_maxima two_mean two_std
  using two_std_le
  by (simp add: two_prominence_40 two_prominence_220) (simp add: two_frequency_def)

theorem find_peaks_height_prominence_separation_witness:
  "valid_argsort example_argsort
   \<and> detected_peaks example_argsort two_streets = Some [40, 220]
   \<and> np_mean (bin_frequency (binned two_streets)) = Finite (1 / 360)
   \<and> np_std (bin_frequency (binned two_streets)) = Finite (sqrt (179 / 129600))
   \<and> bin_frequency (binned two_streets) ! 40 = Finite (1 / 2)
   \<and> prominence_of (bin_frequency (binned two_streets)) 40 = Finite (1 / 2)
   \<and> bin_edges (binned two_streets) ! 40 = 10
   \<and> bin_edges (binned two_streets) ! 220 = 55
   \<and> 4 / 10 \<le> \<bar>bin_edges (binned two_streets) ! 40 - bin_edges (binned two_streets) ! 220\<bar>"
proof -
  let ?x = "bin_frequency (binned two_streets)"
  from find_peaks_height_prominence_separation[OF example_argsort_valid, of two_streets]
  obtain s1 s2 bi stats where
    b: "bin_bearings two_streets 360 = (None, s1)" and
    f: "find_peaks_method example_argsort s1 = (None, s2)" and
    bi: "bp_bin_info s2 = Some bi" and st: "peak_stats bi = Some stats" and
    pk: "peak_ind stats
           = selected_peaks (bin_frequency bi) (np_mean (bin_frequency bi))
               (np_std (bin_frequency bi))" and
    sep: "\<forall>p \<in> set (peak_ind stats). \<forall>q \<in> set (peak_ind stats).
            p \<noteq> q \<longrightarrow> 4 / 10 \<le> \<bar>bin_edges bi ! p - bin_edges bi ! q\<bar>"
    by blast
  from b have s1: "s1 = (new_edge_attribute_bearing_90 two_streets)
                          \<lparr>bp_bin_info := Some (binned two_streets)\<rparr>"
    by (simp add: bin_bearings_360)
  from find_peaks_method_binned[OF example_argsort_valid, of two_streets] f bi
  obtain props where
    bi_eq: "bi = (binned two_streets)\<lparr>peak_stats :=
               Some \<lparr>ps_mean = np_mean ?x, ps_std = np_std ?x,
                     peak_ind = selected_peaks ?x (np_mean ?x) (np_std ?x),
                     peak_properties = props\<rparr>\<rparr>"
    unfolding s1 by auto
  have freq: "bin_frequency bi = ?x" and edges: "bin_edges bi = bin_edges (binned two_streets)"
    by (simp_all add: bi_eq)
  have peaks: "peak_ind stats = [40, 220]"
    unfolding pk freq by (simp only: two_streets_frequency two_selected)
  have det: "detected_peaks example_argsort two_streets = Some [40, 220]"
    by (simp add: detected_peaks_def b f bi st peaks)
  from sep have apart:
    "4 / 10 \<le> \<bar>bin_edges (binned two_streets) ! 40 - bin_edges (binned two_streets) ! 220\<bar>"
    unfolding peaks edges by simp
  have e40: "bin_edges (binned two_streets) ! 40 = 10"
    using bin_edges_nth[of 40 360] by (simp add: binned_facts(3))
  have e220: "bin_edges (binned two_streets) ! 220 = 55"
    using bin_edges_nth[of 220 360] by (simp add: binned_facts(3))
  have h40: "?x ! 40 = Finite (1 / 2)"
    by (simp add: two_streets_frequency two_frequency_def)
  show ?thesis
    using example_argsort_valid det apart e40 e220 h40
    by (simp add: two_streets_frequency two_mean two_std two_prominence_40)
qed

subsection \<open>\<^verbatim>\<open>run\<close> when no peak is found\<close>

text \<open>
  Binning writes the edge attribute \<^verbatim>\<open>bearing_90\<close> and \<^verbatim>\<open>_bin_info\<close>; finding the peaks
  writes \<^verbatim>\<open>_bin_info\<close>. Neither touches the label, the partition or the groups.
\<close>

lemma find_peaks_method_frame:
  assumes "find_peaks_method argsort s1 = (err, s2)"
  shows "attribute_label s2 = attribute_label s1 \<and> partition s2 = partition s1
         \<and> bp_data s2 = bp_data s1 \<and> bp_edges s2 = bp_edges s1"
  using assms
  by (auto simp: find_peaks_method_def Let_def split: option.splits sum.splits prod.splits)

lemma bin_bearings_frame:
  assumes "bin_bearings s n = (err, s1)"
  shows "attribute_label s1 = attribute_label s \<and> partition s1 = partition s
         \<and> (\<forall>e. bearing_group (bp_data s1 e) = bearing_group (bp_data s e))
         \<and> (\<forall>e. bearing (bp_data s1 e) = bearing (bp_data s e))"
  using assms
  by (auto simp: bin_bearings_def Let_def new_edge_attribute_bearing_90_def split: if_splits)

text \<open>
  Claim C4 (no peaks). When the peak detection of \<^verbatim>\<open>run\<close> finds no peak, \<^verbatim>\<open>run\<close> raises
  ArithmeticError, and the object is left with the \<^verbatim>\<open>attribute_label\<close>, the \<^verbatim>\<open>partition\<close>
  and the \<^verbatim>\<open>bearing_group\<close> of every edge that it had before the call: \<^verbatim>\<open>None\<close> and no
  group at all for a partitioner that has not run before. This holds whatever
  \<^verbatim>\<open>__make_boundaries\<close> does, since it is not reached.
\<close>

theorem run_no_peaks_raises_before_labelling:
  assumes "detected_peaks argsort s = Some []"
  shows "fst (run argsort make_boundaries list_str s) = Some ArithmeticError
    \<and> attribute_label (snd (run argsort make_boundaries list_str s)) = attribute_label s
    \<and> partition (snd (run argsort make_boundaries list_str s)) = partition s
    \<and> (\<forall>e. bearing_group (bp_data (snd (run argsort make_boundaries list_str s)) e)
             = bearing_group (bp_data s e))"
proof -
  obtain e1 s1 where b: "bin_bearings s 360 = (e1, s1)" by (cases "bin_bearings s 360")
  obtain e2 s2 where f: "find_peaks_method argsort s1 = (e2, s2)"
    by (cases "find_peaks_method argsort s1")
  from assms b f have e1: "e1 = None" and e2: "e2 = None"
    by (auto simp: detected_peaks_def split: option.splits)
  from assms b f e1 e2 obtain stats where
    st: "Option.bind (bp_bin_info s2) peak_stats = Some stats" and pk: "peak_ind stats = []"
    by (auto simp: detected_peaks_def)
  have r: "run argsort make_boundaries list_str s = (Some ArithmeticError, s2)"
    using b f e1 e2 st pk by (simp add: run_def)
  from bin_bearings_frame[OF b] find_peaks_method_frame[OF f] r
  show ?thesis by simp
qed

text \<open>
  An example: the four streets of a square block, with the bearings 0, 90, 180 and 270
  degrees. Modulo 90 they all fall into the first bin of the histogram. The first
  sample of a signal is never a local maximum for \<^verbatim>\<open>find_peaks\<close>, so no peak is found.
\<close>

definition grid_bearings :: "edge \<Rightarrow> edge_data" where
  "grid_bearings e =
     \<lparr>bearing = (if e = (1, 2, 0) then Some (Finite 0)
                 else if e = (2, 3, 0) then Some (Finite 90)
                 else if e = (3, 4, 0) then Some (Finite 180)
                 else if e = (4, 1, 0) then Some (Finite 270)
                 else None),
      bearing_90 = None, bearing_group = None\<rparr>"

definition grid_partitioner :: bearing_partitioner where
  "grid_partitioner =
     BearingPartitioner_init [(1, 2, 0), (2, 3, 0), (3, 4, 0), (4, 1, 0)] grid_bearings ''grid''"

definition example_make_boundaries ::
  "bearing_partitioner \<Rightarrow> error option \<times> bearing_partitioner" where
  "example_make_boundaries s =
     (None, s\<lparr>bp_inter_vals := \<lparr>boundaries = Some [0, 90], center_values = Some [Some 45]\<rparr>\<rparr>)"

definition example_list_str :: "real list \<Rightarrow> string" where
  "example_list_str bs = ''[..]''"

lemma local_maxima_loop_flat:
  assumes "\<forall>k. i \<le> k \<and> k < length x - 1 \<longrightarrow> \<not> float_lt (x ! (k - 1)) (x ! k)"
  shows "local_maxima_loop x i acc = acc"
  using assms
proof (induction x i acc rule: local_maxima_loop.induct)
  case (1 x i midpoints)
  show ?case
  proof (cases "i < length x - 1")
    case False
    then show ?thesis by (subst local_maxima_loop.simps) simp
  next
    case True
    with "1.prems" have nlt: "\<not> float_lt (x ! (i - 1)) (x ! i)" by simp
    have "local_maxima_loop x (i + 1) midpoints = midpoints"
      using "1.IH"(3)[OF True nlt] "1.prems" by simp
    with True nlt show ?thesis by (subst local_maxima_loop.simps) simp
  qed
qed

lemma grid_frequency:
  "bin_frequency (binned grid_partitioner) = (replicate 360 (Finite 0))[0 := Finite 1]"
proof -
  have vals: "concat (map (\<lambda>e. case bearing_90
                                      (bp_data (new_edge_attribute_bearing_90 grid_partitioner) e) of
                               None \<Rightarrow> [] | Some b \<Rightarrow> [b])
                (remdups (bp_edges (new_edge_attribute_bearing_90 grid_partitioner))))
      = [Finite 0, Finite 0, Finite 0, Finite 0]"
    by (simp add: new_edge_attribute_bearing_90_def grid_partitioner_def
        BearingPartitioner_init_def grid_bearings_def)
  have hist: "np_histogram [Finite 0, Finite 0, Finite 0, Finite 0] (histogram_bins 360)
                = (replicate 720 0)[0 := 4]"
    by (rule nth_equalityI)
       (simp_all add: np_histogram_def histogram_bins_def nth_list_update)
  have rolled: "np_roll1 ((replicate 720 0)[0 := 4]) = (replicate 720 (0::nat))[1 := 4]"
    by (rule nth_equalityI)
       (auto simp: length_np_roll1 np_roll1_nth nth_list_update last_list_update last_replicate)
  have counts: "pair_sums ((replicate 720 0)[1 := 4]) = (replicate 360 (0::nat))[0 := 4]"
    by (rule nth_equalityI)
       (auto simp: length_pair_sums pair_sums_nth nth_list_update)
  have total: "sum_list ((replicate 360 (0::nat))[0 := 4]) = 4"
    by (simp add: sum_list_update)
  show ?thesis
    unfolding binned_def Let_def vals hist rolled counts total
    by (simp add: map_update)
qed

lemma grid_no_local_maxima: "local_maxima_1d ((replicate 360 (Finite 0))[0 := Finite 1]) = []"
  unfolding local_maxima_1d_def
  by (rule local_maxima_loop_flat) (auto simp: nth_list_update)

lemma grid_detected_peaks: "detected_peaks example_argsort grid_partitioner = Some []"
  by (simp add: detected_peaks_eq[OF example_argsort_valid] grid_frequency selected_peaks_def
      grid_no_local_maxima)

theorem run_no_peaks_raises_before_labelling_witness:
  "detected_peaks example_argsort grid_partitioner = Some []
   \<and> fst (run example_argsort example_make_boundaries example_list_str grid_partitioner)
       = Some ArithmeticError
   \<and> attribute_label (snd (run example_argsort example_make_boundaries example_list_str
                              grid_partitioner)) = None
   \<and> partition (snd (run example_argsort example_make_boundaries example_list_str
                        grid_partitioner)) = None
   \<and> bearing_group (bp_data (snd (run example_argsort example_make_boundaries example_list_str
                                     grid_partitioner)) (1, 2, 0)) = None"
proof -
  have fresh: "attribute_label grid_partitioner = None" "partition grid_partitioner = None"
    "bearing_group (bp_data grid_partitioner (1, 2, 0)) = None"
    by (simp_all add: grid_partitioner_def BearingPartitioner_init_def grid_bearings_def)
  from run_no_peaks_raises_before_labelling[OF grid_detected_peaks,
      of example_make_boundaries example_list_str] grid_detected_peaks fresh
  show ?thesis by simp
qed

end
